theory Spec2Isabelle
  imports Main
begin

section \<open>Python values, strings and exceptions\<close>

text \<open>
  Strings are lists of characters; a character stands for a code point below 256.
  Dictionaries with string keys are maps from strings to values. The values that occur in
  the token payload and in the token response are strings and integers (PyJWT writes the
  \<^verbatim>\<open>datetime\<close> claims \<^verbatim>\<open>iat\<close> and \<^verbatim>\<open>exp\<close> as integer seconds, and time is counted
  in whole seconds throughout).
\<close>

datatype pyval = PyStr string | PyInt int

type_synonym pydict = "string \<rightharpoonup> pyval"

text \<open>Python's truth value of \<^verbatim>\<open>d.get(k)\<close>: a missing key gives \<^verbatim>\<open>None\<close>, which is false,
  as are the empty string and zero.\<close>

fun truthy :: "pyval option \<Rightarrow> bool" where
  "truthy None = False"
| "truthy (Some (PyStr s)) = (s \<noteq> [])"
| "truthy (Some (PyInt n)) = (n \<noteq> 0)"

text \<open>Truth value of an optional string argument (\<^verbatim>\<open>patient_id: str = None\<close>).\<close>

fun truthy_str :: "string option \<Rightarrow> bool" where
  "truthy_str None = False"
| "truthy_str (Some s) = (s \<noteq> [])"

text \<open>\<^verbatim>\<open>str.isspace\<close> on the code points below 256.\<close>

definition py_isspace :: "char \<Rightarrow> bool" where
  "py_isspace c = (of_char c \<in> set [9, 10, 11, 12, 13, 28, 29, 30, 31, 32, 133, 160 :: nat])"

text \<open>\<^verbatim>\<open>s.split()\<close>: split at runs of whitespace, no empty words. The first argument is
  the word read so far.\<close>

fun split_ws :: "string \<Rightarrow> string \<Rightarrow> string list" where
  "split_ws w [] = (if w = [] then [] else [w])"
| "split_ws w (c # cs) =
     (if py_isspace c then (if w = [] then split_ws [] cs else w # split_ws [] cs)
      else split_ws (w @ [c]) cs)"

definition py_split :: "string \<Rightarrow> string list" where
  "py_split s = split_ws [] s"

text \<open>\<^verbatim>\<open>s.split(sep)\<close> for a one-character separator: every occurrence splits, empty
  words are kept.\<close>

fun split_sep :: "char \<Rightarrow> string \<Rightarrow> string list" where
  "split_sep sep [] = [[]]"
| "split_sep sep (c # cs) =
     (if c = sep then [] # split_sep sep cs
      else (case split_sep sep cs of w # ws \<Rightarrow> (c # w) # ws | [] \<Rightarrow> [[c]]))"

fun startswith :: "string \<Rightarrow> string \<Rightarrow> bool" where
  "startswith s [] = True"
| "startswith [] (p # ps) = False"
| "startswith (c # cs) (p # ps) = (c = p \<and> startswith cs ps)"

text \<open>\<^verbatim>\<open>any(s.startswith(p) for s in xs)\<close>.\<close>

definition any_startswith :: "string \<Rightarrow> string list \<Rightarrow> bool" where
  "any_startswith p xs = list_ex (\<lambda>s. startswith s p) xs"

text \<open>
  The exceptions PyJWT raises: \<open>ExpiredSignatureError\<close> and \<open>InvalidAudienceError\<close>, any
  other instance of \<^verbatim>\<open>jwt.InvalidTokenError\<close>, and any exception of another class that
  comes out of the library. Each carries the text \<^verbatim>\<open>str(e)\<close> gives. PyJWT does not import
  this repository, so none of them is an instance of a class of
  \<^verbatim>\<open>hmcp/auth/exceptions.py\<close>.
\<close>

datatype lib_exn =
    ExpiredSignatureError string
  | InvalidAudienceError string
  | PyJWTInvalidTokenError string
  | LibraryException string

fun lib_exn_str :: "lib_exn \<Rightarrow> string" where
  "lib_exn_str (ExpiredSignatureError m) = m"
| "lib_exn_str (InvalidAudienceError m) = m"
| "lib_exn_str (PyJWTInvalidTokenError m) = m"
| "lib_exn_str (LibraryException m) = m"

text \<open>
  Exceptions, by class, each with its message; a \<open>KeyError\<close> carries the missing key, and
  \<^verbatim>\<open>str(e)\<close> puts it in quotes. The first four are the classes of
  \<^verbatim>\<open>hmcp/auth/exceptions.py\<close>, the next five are raised by the interpreter in the code of
  this repository, and \<open>PyJWTRaised e\<close> is the exception \<open>e\<close> coming out of a call of PyJWT.
\<close>

datatype exn =
    AuthenticationError string
  | InvalidTokenError string
  | ClientValidationError string
  | ScopeError string
  | ValueError string
  | KeyError string
  | IndexError string
  | AttributeError string
  | OverflowError string
  | PyJWTRaised lib_exn

fun exn_str :: "exn \<Rightarrow> string" where
  "exn_str (AuthenticationError m) = m"
| "exn_str (InvalidTokenError m) = m"
| "exn_str (ClientValidationError m) = m"
| "exn_str (ScopeError m) = m"
| "exn_str (ValueError m) = m"
| "exn_str (KeyError k) = CHR 0x27 # k @ [CHR 0x27]"
| "exn_str (IndexError m) = m"
| "exn_str (AttributeError m) = m"
| "exn_str (OverflowError m) = m"
| "exn_str (PyJWTRaised e) = lib_exn_str e"

text \<open>\<^verbatim>\<open>'%d' % n\<close>: an integer in decimal digits; \<open>decimal_digits\<close> is for the integers from
  0 on.\<close>

function decimal_digits :: "int \<Rightarrow> string" where
  "decimal_digits n =
     (if n < 10 then [''0123456789'' ! nat n]
      else decimal_digits (n div 10) @ [''0123456789'' ! nat (n mod 10)])"
  by pat_completeness auto
termination
  by (relation "measure nat") auto

declare decimal_digits.simps [simp del]

definition decimal :: "int \<Rightarrow> string" where
  "decimal i = (if i < 0 then CHR ''-'' # decimal_digits (- i) else decimal_digits i)"

section \<open>\<^verbatim>\<open>datetime\<close>\<close>

text \<open>
  A \<^verbatim>\<open>datetime\<close> is counted in whole seconds since 1970-01-01 00:00:00 UTC, as PyJWT writes
  it into a token; the type reaches from year 1 to year 9999. \<open>timedelta_hours h\<close> is
  \<^verbatim>\<open>timedelta(hours=h)\<close> in seconds, which CPython refuses when the number of days does
  not fit, and \<open>datetime_add\<close> is \<^verbatim>\<open>+\<close> of a \<^verbatim>\<open>datetime\<close> and a \<^verbatim>\<open>timedelta\<close>, refused when
  the sum leaves the range of the type.
\<close>

definition datetime_min :: int where
  "datetime_min = - 62135596800"

definition datetime_max :: int where
  "datetime_max = 253402300799"

definition timedelta_hours :: "int \<Rightarrow> exn + int" where
  "timedelta_hours h =
     (let days = h div 24
      in if days < - 2147483648 \<or> 2147483647 < days
         then Inl (OverflowError ''Python int too large to convert to C int'')
         else if 999999999 < \<bar>days\<bar>
         then Inl (OverflowError (''days='' @ decimal days @ ''; must have magnitude <= 999999999''))
         else Inr (h * 3600))"

definition datetime_add :: "int \<Rightarrow> int \<Rightarrow> exn + int" where
  "datetime_add t delta =
     (if t + delta < datetime_min \<or> datetime_max < t + delta
      then Inl (OverflowError ''date value out of range'')
      else Inr (t + delta))"

section \<open>\<^verbatim>\<open>hmcp/auth/utils.py\<close>\<close>

definition validate_scope :: "string \<Rightarrow> string \<Rightarrow> bool" where
  "validate_scope required_scope token_scope = (required_scope \<in> set (py_split token_scope))"

definition parse_auth_header :: "string \<Rightarrow> exn + string" where
  "parse_auth_header auth_header =
     (if auth_header = [] \<or> \<not> startswith auth_header ''Bearer ''
      then Inl (ValueError ''Invalid Authorization header'')
      else (case split_sep (CHR '' '') auth_header of
              _ # t # _ \<Rightarrow> Inr t
            | _ \<Rightarrow> Inl (IndexError ''list index out of range'')))"

text \<open>The loop of \<^verbatim>\<open>analyze_scopes\<close> over the triple
  (\<^verbatim>\<open>resource_scopes\<close>, \<^verbatim>\<open>has_patient_context\<close>, \<^verbatim>\<open>has_openid\<close>).\<close>

fun analyze_loop :: "string list \<Rightarrow> string set \<times> bool \<times> bool \<Rightarrow> string set \<times> bool \<times> bool" where
  "analyze_loop [] acc = acc"
| "analyze_loop (scope # rest) (resource_scopes, has_patient_context, has_openid) =
     (if scope = ''openid''
        then analyze_loop rest (resource_scopes, has_patient_context, True)
      else if startswith scope ''patient/''
        then analyze_loop rest (insert (drop 8 scope) resource_scopes, True, has_openid)
      else if scope \<notin> set [''profile'', ''offline_access'', ''launch/patient'']
        then analyze_loop rest (insert scope resource_scopes, has_patient_context, has_openid)
      else analyze_loop rest (resource_scopes, has_patient_context, has_openid))"

definition analyze_scopes :: "string list \<Rightarrow> string set \<times> bool \<times> bool" where
  "analyze_scopes scopes =
     (case analyze_loop scopes ({}, False, False) of
        (resource_scopes, has_patient_context, has_openid) \<Rightarrow>
          (resource_scopes,
           (if ''launch/patient'' \<in> set scopes then True else has_patient_context),
           has_openid))"

definition requires_patient_context :: "string list \<Rightarrow> bool" where
  "requires_patient_context scopes =
     (any_startswith ''patient/'' scopes \<or> ''launch/patient'' \<in> set scopes)"

section \<open>\<^verbatim>\<open>hmcp/auth/config.py\<close>\<close>

text \<open>An entry of \<^verbatim>\<open>ALLOWED_CLIENTS\<close>: the \<^verbatim>\<open>'secret'\<close>, and the \<^verbatim>\<open>'scopes'\<close> list, which
  the middleware reads with \<^verbatim>\<open>.get('scopes', [])\<close> and which may therefore be absent.\<close>

record allowed_client =
  ac_secret :: string
  ac_scopes :: "string list option"

record auth_config =
  JWT_SECRET_KEY :: string
  JWT_ALGORITHM :: string
  TOKEN_EXPIRY_HOURS :: int
  ISSUER :: string
  JWT_AUDIENCE :: string
  OAUTH_TOKEN_URL :: string
  OAUTH_SCOPES :: "string list"
  TOKEN_EXPIRY :: int
  ALLOWED_CLIENTS :: "string \<rightharpoonup> allowed_client"

text \<open>\<^verbatim>\<open>AuthConfig()\<close> with the defaults of the dataclass.\<close>

definition AuthConfig :: auth_config where
  "AuthConfig =
     \<lparr> JWT_SECRET_KEY = ''your-secure-jwt-secret'',
       JWT_ALGORITHM = ''HS256'',
       TOKEN_EXPIRY_HOURS = 1,
       ISSUER = ''HMCP_Server'',
       JWT_AUDIENCE = ''https://hmcp-server.example.com'',
       OAUTH_TOKEN_URL = ''/oauth/token'',
       OAUTH_SCOPES = [''hmcp:access'', ''hmcp:read'', ''hmcp:write'', ''patient/hmcp:read'',
                       ''patient/hmcp:write'', ''openid'', ''profile'', ''launch/patient'',
                       ''offline_access''],
       TOKEN_EXPIRY = 3600,
       ALLOWED_CLIENTS =
         [''test-client'' \<mapsto> \<lparr> ac_secret = ''test-secret'', ac_scopes = Some [''hmcp:access''] \<rparr>] \<rparr>"

section \<open>\<^verbatim>\<open>hmcp/auth/jwt_handler.py\<close>\<close>

text \<open>
  PyJWT is an external library; its two entry points are parameters of the model.
  \<open>pyjwt_encode lib payload key algorithm\<close> is \<^verbatim>\<open>jwt.encode\<close>, and
  \<open>pyjwt_decode lib token key algorithms audience now\<close> is \<^verbatim>\<open>jwt.decode\<close> run when
  the clock reads \<open>now\<close>. Either returns its result or the exception it raises.
\<close>

record jwt_lib =
  pyjwt_encode :: "pydict \<Rightarrow> string \<Rightarrow> string \<Rightarrow> lib_exn + string"
  pyjwt_decode :: "string \<Rightarrow> string \<Rightarrow> string list \<Rightarrow> string \<Rightarrow> int \<Rightarrow> lib_exn + pydict"

text \<open>
  What the model asks of PyJWT where a claim depends on it: a token that \<^verbatim>\<open>encode\<close>
  returned decodes, under the same key and algorithm, to the payload it was made from,
  as long as the audience is the payload's, the expiry instant lies ahead, the token was
  not issued in the future and carries no \<^verbatim>\<open>nbf\<close> claim.
\<close>

definition pyjwt_roundtrip :: "jwt_lib \<Rightarrow> bool" where
  "pyjwt_roundtrip lib =
     (\<forall>payload key alg tok aud e i now.
        pyjwt_encode lib payload key alg = Inr tok \<longrightarrow>
        payload ''aud'' = Some (PyStr aud) \<longrightarrow>
        payload ''exp'' = Some (PyInt e) \<longrightarrow> now < e \<longrightarrow>
        payload ''iat'' = Some (PyInt i) \<longrightarrow> i \<le> now \<longrightarrow>
        payload ''nbf'' = None \<longrightarrow>
        pyjwt_decode lib tok key [alg] aud now = Inr payload)"

text \<open>
  A stand-in for PyJWT on which the model can be run: it knows one token \<open>tok\<close>, made
  from the payload \<open>P\<close>. Decoding \<open>tok\<close> checks the expiry instant of \<open>P\<close>, then its
  audience, and returns \<open>P\<close>; any other string is no token.
\<close>

definition stub_jwt :: "pydict \<Rightarrow> string \<Rightarrow> jwt_lib" where
  "stub_jwt P tok =
     \<lparr> pyjwt_encode = (\<lambda>payload key alg.
         if payload = P then Inr tok else Inl (LibraryException ''payload not supported'')),
       pyjwt_decode = (\<lambda>t key algs aud now.
         if t \<noteq> tok then Inl (PyJWTInvalidTokenError ''Not enough segments'')
         else if (case P ''exp'' of Some (PyInt e) \<Rightarrow> e \<le> now | _ \<Rightarrow> False)
           then Inl (ExpiredSignatureError ''Signature has expired'')
         else if P ''aud'' \<noteq> Some (PyStr aud)
           then Inl (InvalidAudienceError ''Invalid audience'')
         else Inr P) \<rparr>"

record jwt_handler =
  jwt_config :: auth_config
  blacklisted_tokens :: "string set"

definition JWTHandler :: "auth_config \<Rightarrow> jwt_handler" where
  "JWTHandler cfg = \<lparr> jwt_config = cfg, blacklisted_tokens = {} \<rparr>"

text \<open>A call of PyJWT: what it raises comes out as \<open>PyJWTRaised\<close>.\<close>

definition pyjwt_call :: "lib_exn + 'a \<Rightarrow> exn + 'a" where
  "pyjwt_call r = (case r of Inl e \<Rightarrow> Inl (PyJWTRaised e) | Inr v \<Rightarrow> Inr v)"

text \<open>\<^verbatim>\<open>now + timedelta(hours=self.config.TOKEN_EXPIRY_HOURS)\<close> (line 39).\<close>

definition expiry_instant :: "auth_config \<Rightarrow> int \<Rightarrow> exn + int" where
  "expiry_instant cfg now =
     (case timedelta_hours (TOKEN_EXPIRY_HOURS cfg) of
        Inl e \<Rightarrow> Inl e
      | Inr delta \<Rightarrow> datetime_add now delta)"

text \<open>The dictionary of lines 34 to 45, given the value \<open>exp\<close> of the \<^verbatim>\<open>'exp'\<close> entry.\<close>

definition token_claims ::
  "auth_config \<Rightarrow> int \<Rightarrow> int \<Rightarrow> string \<Rightarrow> string \<Rightarrow> string option \<Rightarrow> pydict" where
  "token_claims cfg now exp client_id scope patient_id =
     (let payload = [''iss'' \<mapsto> PyStr (ISSUER cfg),
                     ''sub'' \<mapsto> PyStr client_id,
                     ''aud'' \<mapsto> PyStr (JWT_AUDIENCE cfg),
                     ''iat'' \<mapsto> PyInt now,
                     ''exp'' \<mapsto> PyInt exp,
                     ''scope'' \<mapsto> PyStr scope]
      in (case patient_id of
            None \<Rightarrow> payload
          | Some pid \<Rightarrow>
              if truthy_str patient_id \<and> any_startswith ''patient/'' (py_split scope)
              then payload(''patient'' \<mapsto> PyStr pid)
              else payload))"

text \<open>The payload \<^verbatim>\<open>generate_token\<close> builds (lines 33 to 45), \<open>now\<close> being
  \<^verbatim>\<open>datetime.utcnow()\<close>: there is none when the expiry instant cannot be computed.\<close>

definition token_payload ::
  "auth_config \<Rightarrow> int \<Rightarrow> string \<Rightarrow> string \<Rightarrow> string option \<Rightarrow> exn + pydict" where
  "token_payload cfg now client_id scope patient_id =
     (case expiry_instant cfg now of
        Inl e \<Rightarrow> Inl e
      | Inr exp \<Rightarrow> Inr (token_claims cfg now exp client_id scope patient_id))"

text \<open>\<^verbatim>\<open>generate_token\<close>: the payload is built before the \<^verbatim>\<open>try\<close>, so an
  \<^verbatim>\<open>OverflowError\<close> of line 39 leaves the call before \<^verbatim>\<open>jwt.encode\<close> is reached; the
  handler of the \<^verbatim>\<open>try\<close> logs and re-raises, so otherwise the outcome of \<^verbatim>\<open>jwt.encode\<close> is
  the outcome of the call.\<close>

definition generate_token ::
  "jwt_lib \<Rightarrow> jwt_handler \<Rightarrow> int \<Rightarrow> string \<Rightarrow> string \<Rightarrow> string option \<Rightarrow> exn + string" where
  "generate_token lib self now client_id scope patient_id =
     (if client_id \<notin> dom (ALLOWED_CLIENTS (jwt_config self))
      then Inl (ClientValidationError (''Client '' @ client_id @ '' is not registered''))
      else (case token_payload (jwt_config self) now client_id scope patient_id of
              Inl e \<Rightarrow> Inl e
            | Inr payload \<Rightarrow>
                pyjwt_call (pyjwt_encode lib payload
                  (JWT_SECRET_KEY (jwt_config self)) (JWT_ALGORITHM (jwt_config self)))))"

text \<open>The body of the \<^verbatim>\<open>try\<close> in \<^verbatim>\<open>verify_token\<close>, and its \<^verbatim>\<open>except\<close> clauses in
  their order. The revocation error is raised inside the \<^verbatim>\<open>try\<close>; it is no PyJWT
  exception, so the last clause catches it and wraps its text, as it does with an
  exception of PyJWT that the first three clauses let pass.\<close>

definition verify_token_try :: "jwt_lib \<Rightarrow> jwt_handler \<Rightarrow> int \<Rightarrow> string \<Rightarrow> exn + pydict" where
  "verify_token_try lib self now token =
     (if token \<in> blacklisted_tokens self
      then Inl (InvalidTokenError ''Token has been revoked'')
      else pyjwt_call (pyjwt_decode lib token (JWT_SECRET_KEY (jwt_config self))
             [JWT_ALGORITHM (jwt_config self)] (JWT_AUDIENCE (jwt_config self)) now))"

fun verify_token_except :: "exn \<Rightarrow> exn" where
  "verify_token_except (PyJWTRaised (ExpiredSignatureError m)) = InvalidTokenError ''Token has expired''"
| "verify_token_except (PyJWTRaised (InvalidAudienceError m)) = InvalidTokenError ''Invalid token audience''"
| "verify_token_except (PyJWTRaised (PyJWTInvalidTokenError m)) = InvalidTokenError ''Invalid token''"
| "verify_token_except e = InvalidTokenError (''Token verification failed: '' @ exn_str e)"

definition verify_token :: "jwt_lib \<Rightarrow> jwt_handler \<Rightarrow> int \<Rightarrow> string \<Rightarrow> exn + pydict" where
  "verify_token lib self now token =
     (case verify_token_try lib self now token of
        Inl e \<Rightarrow> Inl (verify_token_except e)
      | Inr payload \<Rightarrow> Inr payload)"

section \<open>\<^verbatim>\<open>hmcp/auth/oauth_server.py\<close>\<close>

text \<open>An entry of \<^verbatim>\<open>oauth_clients\<close>, with its four keys.\<close>

record oauth_client_entry =
  entry_secret :: string
  entry_created_at :: int
  entry_redirect_uris :: "string list"
  entry_allowed_scopes :: "string list"

record oauth_server =
  server_config :: auth_config
  server_jwt_handler :: jwt_handler
  oauth_clients :: "string \<rightharpoonup> oauth_client_entry"

definition OAuthServer :: "auth_config \<Rightarrow> oauth_server" where
  "OAuthServer cfg =
     \<lparr> server_config = cfg, server_jwt_handler = JWTHandler cfg, oauth_clients = Map.empty \<rparr>"

text \<open>\<^verbatim>\<open>x or default\<close> on an optional list: \<^verbatim>\<open>None\<close> and the empty list give the default.\<close>

fun or_default :: "'a list option \<Rightarrow> 'a list \<Rightarrow> 'a list" where
  "or_default None d = d"
| "or_default (Some []) d = d"
| "or_default (Some (x # xs)) d = x # xs"

definition register_client ::
  "oauth_server \<Rightarrow> int \<Rightarrow> string \<Rightarrow> string \<Rightarrow> string list option \<Rightarrow> string list option \<Rightarrow> oauth_server" where
  "register_client self now client_id client_secret redirect_uris allowed_scopes =
     self\<lparr> oauth_clients := (oauth_clients self)(client_id \<mapsto>
              \<lparr> entry_secret = client_secret,
                entry_created_at = now,
                entry_redirect_uris = or_default redirect_uris [],
                entry_allowed_scopes = or_default allowed_scopes [''hmcp:access''] \<rparr>) \<rparr>"

definition validate_client :: "oauth_server \<Rightarrow> string \<Rightarrow> string \<Rightarrow> exn + bool" where
  "validate_client self client_id client_secret =
     (case oauth_clients self client_id of
        None \<Rightarrow> Inl (ClientValidationError ''Invalid client ID'')
      | Some entry \<Rightarrow> Inr (entry_secret entry = client_secret))"

definition create_token ::
  "jwt_lib \<Rightarrow> oauth_server \<Rightarrow> int \<Rightarrow> string \<Rightarrow> string \<Rightarrow> string option \<Rightarrow> exn + pydict" where
  "create_token lib self now client_id scope patient_id =
     (case generate_token lib (server_jwt_handler self) now client_id scope patient_id of
        Inl e \<Rightarrow> Inl e
      | Inr token \<Rightarrow>
          (let response = [''access_token'' \<mapsto> PyStr token,
                           ''token_type'' \<mapsto> PyStr ''Bearer'',
                           ''expires_in'' \<mapsto> PyInt (TOKEN_EXPIRY_HOURS (server_config self) * 3600),
                           ''scope'' \<mapsto> PyStr scope]
           in Inr (case patient_id of
                     None \<Rightarrow> response
                   | Some pid \<Rightarrow> if truthy_str patient_id then response(''patient'' \<mapsto> PyStr pid)
                                 else response)))"

section \<open>\<^verbatim>\<open>hmcp/auth/oauth_client.py\<close>\<close>

record oauth_client =
  oc_client_id :: string
  oc_client_secret :: string
  oc_config :: auth_config
  oc_access_token :: "pyval option"
  oc_id_token :: "pyval option"
  oc_token_response :: "pydict option"
  oc_patient_id :: "pyval option"

text \<open>\<^verbatim>\<open>set_token\<close> assigns to the fields of the object one after another, so the model
  returns the object as it is when the call ends, together with the outcome: the
  \<^verbatim>\<open>KeyError\<close> of \<^verbatim>\<open>token_response['access_token']\<close>, or nothing.\<close>

definition set_token :: "oauth_client \<Rightarrow> pydict \<Rightarrow> (exn + unit) \<times> oauth_client" where
  "set_token self token_response =
     (let self1 = self\<lparr> oc_token_response := Some token_response \<rparr>
      in (case token_response ''access_token'' of
            None \<Rightarrow> (Inl (KeyError ''access_token''), self1)
          | Some tok \<Rightarrow>
              (let self2 = self1\<lparr> oc_access_token := Some tok \<rparr>;
                   self3 = (case token_response ''id_token'' of
                              None \<Rightarrow> self2
                            | Some v \<Rightarrow> self2\<lparr> oc_id_token := Some v \<rparr>);
                   self4 = (case token_response ''patient'' of
                              None \<Rightarrow> self3
                            | Some v \<Rightarrow> self3\<lparr> oc_patient_id := Some v \<rparr>)
               in (Inr (), self4))))"

section \<open>\<^verbatim>\<open>hmcp/mcpserver/fastmcp_auth.py\<close>\<close>

text \<open>The attributes the middleware sets on \<^verbatim>\<open>request.state\<close>; \<open>None\<close> is an attribute
  that is not set.\<close>

record request_state =
  state_client_id :: "string option"
  state_scopes :: "string list option"
  state_patient_id :: "pyval option"

record request =
  url_path :: string
  authorization :: "string option"
  req_state :: request_state

text \<open>What \<^verbatim>\<open>dispatch\<close> returns: \<open>CallNext r\<close> is \<^verbatim>\<open>await call_next(request)\<close>, the request
  \<open>r\<close> handed to the application behind the middleware (the decision ALLOW);
  \<open>JSONResponse msg code\<close> is the refusal with body \<^verbatim>\<open>{"error": msg}\<close> and that status.
  What the application does with the request is not part of the model.\<close>

datatype response = CallNext request | JSONResponse string nat

record auth_middleware =
  mw_auth_config :: auth_config
  mw_jwt_handler :: jwt_handler

definition AuthMiddleware :: "auth_config \<Rightarrow> auth_middleware" where
  "AuthMiddleware cfg = \<lparr> mw_auth_config = cfg, mw_jwt_handler = JWTHandler cfg \<rparr>"

text \<open>\<^verbatim>\<open>payload.get('scope', '').split()\<close>: an integer has no \<^verbatim>\<open>split\<close>.\<close>

definition token_scopes_of :: "pydict \<Rightarrow> exn + string list" where
  "token_scopes_of payload =
     (case payload ''scope'' of
        None \<Rightarrow> Inr (py_split [])
      | Some (PyStr s) \<Rightarrow> Inr (py_split s)
      | Some (PyInt n) \<Rightarrow>
          Inl (AttributeError (CHR 0x27 # ''int' object has no attribute 'split'' @ [CHR 0x27])))"

text \<open>\<^verbatim>\<open>not client_id or client_id not in ALLOWED_CLIENTS\<close> for \<^verbatim>\<open>client_id = payload.get('sub')\<close>:
  the keys of \<^verbatim>\<open>ALLOWED_CLIENTS\<close> are strings, so an integer is never among them. The
  result is the client id when the test lets it pass.\<close>

definition valid_client_id :: "auth_config \<Rightarrow> pyval option \<Rightarrow> string option" where
  "valid_client_id cfg client_id =
     (case client_id of
        Some (PyStr cid) \<Rightarrow> if cid = [] \<or> cid \<notin> dom (ALLOWED_CLIENTS cfg) then None else Some cid
      | _ \<Rightarrow> None)"

definition required_scopes_of :: "auth_config \<Rightarrow> string \<Rightarrow> string list" where
  "required_scopes_of cfg client_id =
     (case ALLOWED_CLIENTS cfg client_id of
        None \<Rightarrow> []
      | Some entry \<Rightarrow> (case ac_scopes entry of None \<Rightarrow> [] | Some scopes \<Rightarrow> scopes))"

text \<open>The body of the \<^verbatim>\<open>try\<close> in \<^verbatim>\<open>dispatch\<close> (lines 47 to 93).\<close>

definition dispatch_try ::
  "jwt_lib \<Rightarrow> auth_middleware \<Rightarrow> int \<Rightarrow> request \<Rightarrow> string \<Rightarrow> exn + response" where
  "dispatch_try lib self now req auth_header =
     (case parse_auth_header auth_header of
        Inl e \<Rightarrow> Inl e
      | Inr token \<Rightarrow>
     (case verify_token lib (mw_jwt_handler self) now token of
        Inl e \<Rightarrow> Inl e
      | Inr payload \<Rightarrow>
     (case valid_client_id (mw_auth_config self) (payload ''sub'') of
        None \<Rightarrow> Inr (JSONResponse ''Invalid client ID'' 401)
      | Some client_id \<Rightarrow>
     (case token_scopes_of payload of
        Inl e \<Rightarrow> Inl e
      | Inr token_scopes \<Rightarrow>
          (let required_scopes = required_scopes_of (mw_auth_config self) client_id;
               patient_id = payload ''patient'';
               has_patient_scopes = any_startswith ''patient/'' token_scopes
           in if \<not> list_all (\<lambda>scope. scope \<in> set token_scopes) required_scopes
              then Inr (JSONResponse ''Insufficient scope'' 403)
              else if has_patient_scopes \<and> \<not> truthy patient_id
              then Inr (JSONResponse ''Patient-context scopes require patient ID'' 403)
              else Inr (CallNext (req\<lparr> req_state :=
                     (req_state req)\<lparr> state_client_id := Some client_id,
                                      state_scopes := Some token_scopes,
                                      state_patient_id :=
                                        (if truthy patient_id then patient_id
                                         else state_patient_id (req_state req)) \<rparr> \<rparr>)))))))"

fun dispatch_except :: "exn \<Rightarrow> response" where
  "dispatch_except (InvalidTokenError m) = JSONResponse (''Authentication failed: '' @ m) 401"
| "dispatch_except (ScopeError m) = JSONResponse (''Authorization failed: '' @ m) 403"
| "dispatch_except e = JSONResponse (''Authentication failed: '' @ exn_str e) 401"

definition dispatch :: "jwt_lib \<Rightarrow> auth_middleware \<Rightarrow> int \<Rightarrow> request \<Rightarrow> response" where
  "dispatch lib self now req =
     (if url_path req = OAUTH_TOKEN_URL (mw_auth_config self) then CallNext req
      else (case authorization req of
              None \<Rightarrow> JSONResponse ''No authorization header provided'' 401
            | Some auth_header \<Rightarrow>
                if auth_header = [] then JSONResponse ''No authorization header provided'' 401
                else (case dispatch_try lib self now req auth_header of
                        Inl e \<Rightarrow> dispatch_except e
                      | Inr r \<Rightarrow> r)))"

text \<open>Fixtures for running the model: a request to \<^verbatim>\<open>/sse\<close> with a given
  \<^verbatim>\<open>Authorization\<close> header and nothing set on its state, and the audience of the default
  configuration.\<close>

abbreviation sse_request :: "string option \<Rightarrow> request" where
  "sse_request hdr \<equiv>
     \<lparr> url_path = ''/sse'', authorization = hdr,
       req_state = \<lparr> state_client_id = None, state_scopes = None, state_patient_id = None \<rparr> \<rparr>"

abbreviation default_audience :: string where
  "default_audience \<equiv> ''https://hmcp-server.example.com''"

text \<open>A client object that already holds a token, an ID token and a patient id.\<close>

abbreviation cached_client :: oauth_client where
  "cached_client \<equiv>
     \<lparr> oc_client_id = ''test-client'', oc_client_secret = ''test-secret'', oc_config = AuthConfig,
       oc_access_token = Some (PyStr ''old-token''), oc_id_token = Some (PyStr ''old-id''),
       oc_token_response = Some [''access_token'' \<mapsto> PyStr ''old-token''],
       oc_patient_id = Some (PyStr ''PT1'') \<rparr>"

text \<open>The claims of a token issued to \<^verbatim>\<open>test-client\<close> at the instant 1000 under the
  default configuration, which lets it expire at 4600.\<close>

abbreviation issued_claims :: "string \<Rightarrow> string option \<Rightarrow> pydict" where
  "issued_claims scope patient_id \<equiv>
     token_claims AuthConfig 1000 4600 ''test-client'' scope patient_id"

section \<open>Calls of the library\<close>

lemma pyjwt_call_Inr [simp]: "pyjwt_call (Inr v) = Inr v"
  by (simp add: pyjwt_call_def)

lemma pyjwt_call_Inl [simp]: "pyjwt_call (Inl e) = Inl (PyJWTRaised e)"
  by (simp add: pyjwt_call_def)

lemma pyjwt_call_eq_Inr [simp]: "pyjwt_call r = Inr v \<longleftrightarrow> r = Inr v"
  by (cases r) simp_all

section \<open>The scope analyser\<close>

lemma analyze_loop_patient_flag:
  "fst (snd (analyze_loop scopes (rs, pc, oid))) = (pc \<or> any_startswith ''patient/'' scopes)"
  by (induction scopes arbitrary: rs pc oid) (auto simp: any_startswith_def)

text \<open>
  C7. For every list of scopes, \<^verbatim>\<open>requires_patient_context\<close> returns the second component
  (\<^verbatim>\<open>has_patient_context\<close>) of \<^verbatim>\<open>analyze_scopes\<close> on the same list: the two entry points
  are the same patient-context predicate.
\<close>

theorem requires_patient_context_agrees:
  "requires_patient_context scopes = fst (snd (analyze_scopes scopes))"
proof -
  obtain rs pc oid where loop: "analyze_loop scopes ({}, False, False) = (rs, pc, oid)"
    by (cases "analyze_loop scopes ({}, False, False)") auto
  have "pc = any_startswith ''patient/'' scopes"
    using analyze_loop_patient_flag [of scopes "{}" False False] loop by simp
  then show ?thesis
    by (auto simp: requires_patient_context_def analyze_scopes_def loop)
qed

theorem requires_patient_context_agrees_witness:
  "requires_patient_context [''openid'', ''launch/patient'']
   \<and> fst (snd (analyze_scopes [''openid'', ''launch/patient'']))
   \<and> \<not> requires_patient_context [''hmcp:access'', ''profile'']
   \<and> \<not> fst (snd (analyze_scopes [''hmcp:access'', ''profile'']))"
  using requires_patient_context_agrees [of "[''openid'', ''launch/patient'']"]
        requires_patient_context_agrees [of "[''hmcp:access'', ''profile'']"]
  by (simp add: requires_patient_context_def any_startswith_def)

section \<open>The token verifier\<close>

text \<open>
  C4. A token in \<^verbatim>\<open>blacklisted_tokens\<close> is refused by \<^verbatim>\<open>verify_token\<close> with the
  revocation error (an \<^verbatim>\<open>InvalidTokenError\<close> whose text is that of the revocation, wrapped
  by the last \<^verbatim>\<open>except\<close> clause), whatever PyJWT would say about its signature, expiry
  or audience and at every instant: the result depends neither on the library nor on the
  clock, and no method of the handler takes a token out of the set.
\<close>

theorem revoked_token_rejected:
  "token \<in> blacklisted_tokens self \<Longrightarrow>
     verify_token lib self now token =
       Inl (InvalidTokenError ''Token verification failed: Token has been revoked'')"
  by (simp add: verify_token_def verify_token_try_def)

theorem revoked_token_rejected_witness:
  "''tok'' \<in> blacklisted_tokens \<lparr> jwt_config = AuthConfig, blacklisted_tokens = {''tok''} \<rparr>
   \<and> pyjwt_decode (stub_jwt [''aud'' \<mapsto> PyStr default_audience] ''tok'') ''tok''
        (JWT_SECRET_KEY AuthConfig) [JWT_ALGORITHM AuthConfig] (JWT_AUDIENCE AuthConfig) 0
      = Inr [''aud'' \<mapsto> PyStr default_audience]
   \<and> verify_token (stub_jwt [''aud'' \<mapsto> PyStr default_audience] ''tok'')
        \<lparr> jwt_config = AuthConfig, blacklisted_tokens = {''tok''} \<rparr> 0 ''tok''
      = Inl (InvalidTokenError ''Token verification failed: Token has been revoked'')"
proof -
  have revoked: "''tok'' \<in> blacklisted_tokens \<lparr> jwt_config = AuthConfig, blacklisted_tokens = {''tok''} \<rparr>"
    by simp
  have accepted: "pyjwt_decode (stub_jwt [''aud'' \<mapsto> PyStr default_audience] ''tok'') ''tok''
        (JWT_SECRET_KEY AuthConfig) [JWT_ALGORITHM AuthConfig] (JWT_AUDIENCE AuthConfig) 0
      = Inr [''aud'' \<mapsto> PyStr default_audience]"
    by (simp add: stub_jwt_def AuthConfig_def)
  from revoked accepted revoked_token_rejected [OF revoked] show ?thesis
    by blast
qed

section \<open>The credential cache of the client\<close>

text \<open>
  C10. When the token response has no \<^verbatim>\<open>'access_token'\<close> key, \<^verbatim>\<open>set_token\<close> fails (with
  the \<^verbatim>\<open>KeyError\<close> of the lookup), and the failure is not atomic: \<^verbatim>\<open>token_response\<close> already
  holds the new response, while \<^verbatim>\<open>access_token\<close>, \<^verbatim>\<open>id_token\<close> and \<^verbatim>\<open>patient_id\<close> keep
  their previous values.
\<close>

theorem set_token_not_atomic:
  "token_response ''access_token'' = None \<Longrightarrow>
     fst (set_token self token_response) = Inl (KeyError ''access_token'')
     \<and> oc_token_response (snd (set_token self token_response)) = Some token_response
     \<and> oc_access_token (snd (set_token self token_response)) = oc_access_token self
     \<and> oc_id_token (snd (set_token self token_response)) = oc_id_token self
     \<and> oc_patient_id (snd (set_token self token_response)) = oc_patient_id self"
  by (simp add: set_token_def)

theorem set_token_not_atomic_witness:
  "[''id_token'' \<mapsto> PyStr ''new-id'', ''patient'' \<mapsto> PyStr ''PT2''] ''access_token'' = None
   \<and> fst (set_token cached_client [''id_token'' \<mapsto> PyStr ''new-id'', ''patient'' \<mapsto> PyStr ''PT2''])
       = Inl (KeyError ''access_token'')
   \<and> oc_token_response
        (snd (set_token cached_client [''id_token'' \<mapsto> PyStr ''new-id'', ''patient'' \<mapsto> PyStr ''PT2'']))
       = Some [''id_token'' \<mapsto> PyStr ''new-id'', ''patient'' \<mapsto> PyStr ''PT2'']
   \<and> oc_access_token
        (snd (set_token cached_client [''id_token'' \<mapsto> PyStr ''new-id'', ''patient'' \<mapsto> PyStr ''PT2'']))
       = Some (PyStr ''old-token'')
   \<and> oc_id_token
        (snd (set_token cached_client [''id_token'' \<mapsto> PyStr ''new-id'', ''patient'' \<mapsto> PyStr ''PT2'']))
       = Some (PyStr ''old-id'')
   \<and> oc_patient_id
        (snd (set_token cached_client [''id_token'' \<mapsto> PyStr ''new-id'', ''patient'' \<mapsto> PyStr ''PT2'']))
       = Some (PyStr ''PT1'')"
proof -
  let ?r = "[''id_token'' \<mapsto> PyStr ''new-id'', ''patient'' \<mapsto> PyStr ''PT2'']"
  have absent: "?r ''access_token'' = None" by simp
  from set_token_not_atomic [of ?r cached_client] absent show ?thesis
    by simp
qed

section \<open>The authorization decision of the middleware\<close>

lemma dispatch_except_not_CallNext: "dispatch_except e \<noteq> CallNext r"
  by (cases e) simp_all

lemma parse_auth_header_nonempty: "parse_auth_header h = Inr t \<Longrightarrow> h \<noteq> []"
  by (auto simp: parse_auth_header_def)

text \<open>What \<^verbatim>\<open>dispatch\<close> answers once the token has been verified, its subject found among
  the configured clients and its scope claim split.\<close>

lemma dispatch_verified:
  assumes "url_path req \<noteq> OAUTH_TOKEN_URL (mw_auth_config self)"
    and "authorization req = Some auth_header"
    and "parse_auth_header auth_header = Inr token"
    and "verify_token lib (mw_jwt_handler self) now token = Inr payload"
    and "valid_client_id (mw_auth_config self) (payload ''sub'') = Some client_id"
    and "token_scopes_of payload = Inr token_scopes"
  shows "dispatch lib self now req =
     (if \<not> set (required_scopes_of (mw_auth_config self) client_id) \<subseteq> set token_scopes
      then JSONResponse ''Insufficient scope'' 403
      else if any_startswith ''patient/'' token_scopes \<and> \<not> truthy (payload ''patient'')
      then JSONResponse ''Patient-context scopes require patient ID'' 403
      else CallNext (req\<lparr> req_state :=
             (req_state req)\<lparr> state_client_id := Some client_id,
                              state_scopes := Some token_scopes,
                              state_patient_id :=
                                (if truthy (payload ''patient'') then payload ''patient''
                                 else state_patient_id (req_state req)) \<rparr> \<rparr>))"
  using assms parse_auth_header_nonempty [OF assms(3)]
  by (simp add: dispatch_def dispatch_try_def list_all_iff subset_iff Let_def)

lemma dispatch_CallNext_verified:
  assumes "url_path req \<noteq> OAUTH_TOKEN_URL (mw_auth_config self)"
    and "dispatch lib self now req = CallNext req'"
  shows "\<exists>auth_header token payload client_id token_scopes.
           authorization req = Some auth_header \<and>
           parse_auth_header auth_header = Inr token \<and>
           verify_token lib (mw_jwt_handler self) now token = Inr payload \<and>
           valid_client_id (mw_auth_config self) (payload ''sub'') = Some client_id \<and>
           token_scopes_of payload = Inr token_scopes"
  using assms
  by (auto simp: dispatch_def dispatch_try_def dispatch_except_not_CallNext Let_def
           split: option.splits sum.splits if_splits)

text \<open>Facts about the fixtures, shared by the concrete runs below.\<close>

lemma sse_request_not_token_url:
  "url_path (sse_request hdr) \<noteq> OAUTH_TOKEN_URL (mw_auth_config (AuthMiddleware AuthConfig))"
  by (simp add: AuthMiddleware_def AuthConfig_def)

lemma parse_bearer_tok: "parse_auth_header ''Bearer tok'' = Inr ''tok''"
  by (simp add: parse_auth_header_def)

lemma stub_verify_default:
  "P ''aud'' = Some (PyStr default_audience) \<Longrightarrow> P ''exp'' = None \<Longrightarrow>
     verify_token (stub_jwt P ''tok'') (mw_jwt_handler (AuthMiddleware AuthConfig)) now ''tok'' = Inr P"
  by (simp add: verify_token_def verify_token_try_def stub_jwt_def AuthMiddleware_def
                JWTHandler_def AuthConfig_def)

lemma required_scopes_test_client:
  "required_scopes_of (mw_auth_config (AuthMiddleware AuthConfig)) ''test-client'' = [''hmcp:access'']"
  by (simp add: required_scopes_of_def AuthMiddleware_def AuthConfig_def)

lemma valid_test_client:
  "valid_client_id (mw_auth_config (AuthMiddleware AuthConfig)) (Some (PyStr ''test-client''))
     = Some ''test-client''"
  by (simp add: valid_client_id_def AuthMiddleware_def AuthConfig_def)

text \<open>
  C1. On a request that is not for the token endpoint, \<^verbatim>\<open>dispatch\<close> hands the request on
  (ALLOW) only if its token was verified, the subject is a configured client and every
  scope in that client's configured \<^verbatim>\<open>'scopes'\<close> occurs in the split scope claim of the
  token (a subset test); and whenever such a verified token lacks one of the required
  scopes, the answer is the refusal \<^verbatim>\<open>Insufficient scope\<close> with status 403.
\<close>

theorem required_scopes_subset:
  assumes "url_path req \<noteq> OAUTH_TOKEN_URL (mw_auth_config self)"
  shows "(dispatch lib self now req = CallNext req' \<longrightarrow>
            (\<exists>auth_header token payload client_id token_scopes.
               authorization req = Some auth_header \<and>
               parse_auth_header auth_header = Inr token \<and>
               verify_token lib (mw_jwt_handler self) now token = Inr payload \<and>
               valid_client_id (mw_auth_config self) (payload ''sub'') = Some client_id \<and>
               token_scopes_of payload = Inr token_scopes \<and>
               set (required_scopes_of (mw_auth_config self) client_id) \<subseteq> set token_scopes))
       \<and> (\<forall>auth_header token payload client_id token_scopes.
             authorization req = Some auth_header \<and>
             parse_auth_header auth_header = Inr token \<and>
             verify_token lib (mw_jwt_handler self) now token = Inr payload \<and>
             valid_client_id (mw_auth_config self) (payload ''sub'') = Some client_id \<and>
             token_scopes_of payload = Inr token_scopes \<and>
             \<not> set (required_scopes_of (mw_auth_config self) client_id) \<subseteq> set token_scopes
             \<longrightarrow> dispatch lib self now req = JSONResponse ''Insufficient scope'' 403)"
proof (intro conjI impI allI)
  assume allow: "dispatch lib self now req = CallNext req'"
  from dispatch_CallNext_verified [OF assms allow]
  obtain auth_header token payload client_id token_scopes where
    v: "authorization req = Some auth_header" "parse_auth_header auth_header = Inr token"
       "verify_token lib (mw_jwt_handler self) now token = Inr payload"
       "valid_client_id (mw_auth_config self) (payload ''sub'') = Some client_id"
       "token_scopes_of payload = Inr token_scopes"
    by blast
  have "set (required_scopes_of (mw_auth_config self) client_id) \<subseteq> set token_scopes"
    using dispatch_verified [OF assms v] allow by (auto split: if_splits)
  with v show "\<exists>auth_header token payload client_id token_scopes.
               authorization req = Some auth_header \<and>
               parse_auth_header auth_header = Inr token \<and>
               verify_token lib (mw_jwt_handler self) now token = Inr payload \<and>
               valid_client_id (mw_auth_config self) (payload ''sub'') = Some client_id \<and>
               token_scopes_of payload = Inr token_scopes \<and>
               set (required_scopes_of (mw_auth_config self) client_id) \<subseteq> set token_scopes"
    by blast
next
  fix auth_header token payload client_id token_scopes
  assume "authorization req = Some auth_header \<and>
             parse_auth_header auth_header = Inr token \<and>
             verify_token lib (mw_jwt_handler self) now token = Inr payload \<and>
             valid_client_id (mw_auth_config self) (payload ''sub'') = Some client_id \<and>
             token_scopes_of payload = Inr token_scopes \<and>
             \<not> set (required_scopes_of (mw_auth_config self) client_id) \<subseteq> set token_scopes"
  then show "dispatch lib self now req = JSONResponse ''Insufficient scope'' 403"
    using dispatch_verified [OF assms, of auth_header token lib now payload client_id token_scopes]
    by simp
qed

theorem required_scopes_subset_witness:
  "url_path (sse_request (Some ''Bearer tok''))
     \<noteq> OAUTH_TOKEN_URL (mw_auth_config (AuthMiddleware AuthConfig))
   \<and> required_scopes_of (mw_auth_config (AuthMiddleware AuthConfig)) ''test-client'' = [''hmcp:access'']
   \<and> token_scopes_of [''sub'' \<mapsto> PyStr ''test-client'', ''aud'' \<mapsto> PyStr default_audience,
                        ''scope'' \<mapsto> PyStr ''hmcp:read openid''] = Inr [''hmcp:read'', ''openid'']
   \<and> dispatch
        (stub_jwt [''sub'' \<mapsto> PyStr ''test-client'', ''aud'' \<mapsto> PyStr default_audience,
                   ''scope'' \<mapsto> PyStr ''hmcp:read openid''] ''tok'')
        (AuthMiddleware AuthConfig) 0 (sse_request (Some ''Bearer tok''))
      = JSONResponse ''Insufficient scope'' 403"
proof -
  let ?P = "[''sub'' \<mapsto> PyStr ''test-client'', ''aud'' \<mapsto> PyStr default_audience,
             ''scope'' \<mapsto> PyStr ''hmcp:read openid'']"
  let ?req = "sse_request (Some ''Bearer tok'')"
  let ?mw = "AuthMiddleware AuthConfig"
  have path: "url_path ?req \<noteq> OAUTH_TOKEN_URL (mw_auth_config ?mw)"
    by (rule sse_request_not_token_url)
  have hdr: "authorization ?req = Some ''Bearer tok''" by simp
  have ver: "verify_token (stub_jwt ?P ''tok'') (mw_jwt_handler ?mw) 0 ''tok'' = Inr ?P"
    by (rule stub_verify_default) simp_all
  have cid: "valid_client_id (mw_auth_config ?mw) (?P ''sub'') = Some ''test-client''"
    using valid_test_client by simp
  have ts: "token_scopes_of ?P = Inr [''hmcp:read'', ''openid'']"
    by (simp add: token_scopes_of_def py_split_def py_isspace_def)
  have missing: "\<not> set (required_scopes_of (mw_auth_config ?mw) ''test-client'')
                     \<subseteq> set [''hmcp:read'', ''openid'']"
    by (simp add: required_scopes_test_client)
  from required_scopes_subset [OF path, of "stub_jwt ?P ''tok''" 0]
  have "dispatch (stub_jwt ?P ''tok'') ?mw 0 ?req = JSONResponse ''Insufficient scope'' 403"
    using hdr parse_bearer_tok ver cid ts missing by blast
  with path required_scopes_test_client ts show ?thesis by blast
qed

text \<open>
  C8. A request for another path than the token endpoint that carries no \<^verbatim>\<open>Authorization\<close>
  header is refused with \<^verbatim>\<open>No authorization header provided\<close> and status 401, whatever
  the token library and the handler would do (neither the header parser nor the verifier
  has a say in the answer); a request for the token endpoint is handed on as it came,
  with or without a header.
\<close>

theorem missing_header_and_bypass:
  "(url_path req \<noteq> OAUTH_TOKEN_URL (mw_auth_config self) \<and> authorization req = None \<longrightarrow>
      dispatch lib self now req = JSONResponse ''No authorization header provided'' 401)
   \<and> (url_path req = OAUTH_TOKEN_URL (mw_auth_config self) \<longrightarrow>
      dispatch lib self now req = CallNext req)"
  by (simp add: dispatch_def)

theorem missing_header_and_bypass_witness:
  "url_path (sse_request None) \<noteq> OAUTH_TOKEN_URL (mw_auth_config (AuthMiddleware AuthConfig))
   \<and> authorization (sse_request None) = None
   \<and> dispatch (stub_jwt Map.empty ''tok'') (AuthMiddleware AuthConfig) 0 (sse_request None)
       = JSONResponse ''No authorization header provided'' 401
   \<and> url_path ((sse_request None)\<lparr> url_path := ''/oauth/token'' \<rparr>)
       = OAUTH_TOKEN_URL (mw_auth_config (AuthMiddleware AuthConfig))
   \<and> dispatch (stub_jwt Map.empty ''tok'') (AuthMiddleware AuthConfig) 0
        ((sse_request None)\<lparr> url_path := ''/oauth/token'' \<rparr>)
       = CallNext ((sse_request None)\<lparr> url_path := ''/oauth/token'' \<rparr>)"
proof -
  let ?mw = "AuthMiddleware AuthConfig"
  let ?lib = "stub_jwt Map.empty ''tok''"
  have path: "url_path (sse_request None) \<noteq> OAUTH_TOKEN_URL (mw_auth_config ?mw)"
    by (rule sse_request_not_token_url)
  have none: "authorization (sse_request None) = None" by simp
  have tok_url: "url_path ((sse_request None)\<lparr> url_path := ''/oauth/token'' \<rparr>)
       = OAUTH_TOKEN_URL (mw_auth_config ?mw)"
    by (simp add: AuthMiddleware_def AuthConfig_def)
  from missing_header_and_bypass [of "sse_request None" ?mw ?lib 0]
       missing_header_and_bypass [of "(sse_request None)\<lparr> url_path := ''/oauth/token'' \<rparr>" ?mw ?lib 0]
       path none tok_url
  show ?thesis by blast
qed

text \<open>
  C9, as the code has it. Take a request that reaches the patient-context test: it is not
  for the token endpoint, its token is verified, the subject is a configured client and
  the required scopes are among the token's scopes. If one of the split scopes starts with
  \<^verbatim>\<open>patient/\<close> and the token has no patient claim, or one that Python counts as false
  (the empty string), the answer is \<^verbatim>\<open>Patient-context scopes require patient ID\<close> with
  status 403. If the patient claim is present and not empty, the request is handed on with
  the client id, the scopes and the patient id set on its state.
\<close>

theorem patient_context_check:
  assumes "url_path req \<noteq> OAUTH_TOKEN_URL (mw_auth_config self)"
    and "authorization req = Some auth_header"
    and "parse_auth_header auth_header = Inr token"
    and "verify_token lib (mw_jwt_handler self) now token = Inr payload"
    and "valid_client_id (mw_auth_config self) (payload ''sub'') = Some client_id"
    and "token_scopes_of payload = Inr token_scopes"
    and "set (required_scopes_of (mw_auth_config self) client_id) \<subseteq> set token_scopes"
  shows "(any_startswith ''patient/'' token_scopes \<and> \<not> truthy (payload ''patient'') \<longrightarrow>
            dispatch lib self now req = JSONResponse ''Patient-context scopes require patient ID'' 403)
       \<and> (truthy (payload ''patient'') \<longrightarrow>
            dispatch lib self now req =
              CallNext (req\<lparr> req_state :=
                (req_state req)\<lparr> state_client_id := Some client_id,
                                 state_scopes := Some token_scopes,
                                 state_patient_id := payload ''patient'' \<rparr> \<rparr>))"
  using dispatch_verified [OF assms(1-6)] assms(7) by simp

theorem patient_context_check_witness:
  "dispatch
     (stub_jwt [''sub'' \<mapsto> PyStr ''test-client'', ''aud'' \<mapsto> PyStr default_audience,
                ''scope'' \<mapsto> PyStr ''hmcp:access patient/hmcp:read''] ''tok'')
     (AuthMiddleware AuthConfig) 0 (sse_request (Some ''Bearer tok''))
     = JSONResponse ''Patient-context scopes require patient ID'' 403
   \<and> dispatch
     (stub_jwt [''sub'' \<mapsto> PyStr ''test-client'', ''aud'' \<mapsto> PyStr default_audience,
                ''scope'' \<mapsto> PyStr ''hmcp:access patient/hmcp:read'',
                ''patient'' \<mapsto> PyStr ''PT12345''] ''tok'')
     (AuthMiddleware AuthConfig) 0 (sse_request (Some ''Bearer tok''))
     = CallNext ((sse_request (Some ''Bearer tok''))\<lparr> req_state :=
         \<lparr> state_client_id = Some ''test-client'',
           state_scopes = Some [''hmcp:access'', ''patient/hmcp:read''],
           state_patient_id = Some (PyStr ''PT12345'') \<rparr> \<rparr>)"
proof -
  let ?P = "[''sub'' \<mapsto> PyStr ''test-client'', ''aud'' \<mapsto> PyStr default_audience,
             ''scope'' \<mapsto> PyStr ''hmcp:access patient/hmcp:read'']"
  let ?Q = "?P(''patient'' \<mapsto> PyStr ''PT12345'')"
  let ?req = "sse_request (Some ''Bearer tok'')"
  let ?mw = "AuthMiddleware AuthConfig"
  let ?ts = "[''hmcp:access'', ''patient/hmcp:read'']"
  have hdr: "authorization ?req = Some ''Bearer tok''" by simp
  have verP: "verify_token (stub_jwt ?P ''tok'') (mw_jwt_handler ?mw) 0 ''tok'' = Inr ?P"
    by (rule stub_verify_default) simp_all
  have verQ: "verify_token (stub_jwt ?Q ''tok'') (mw_jwt_handler ?mw) 0 ''tok'' = Inr ?Q"
    by (rule stub_verify_default) simp_all
  have cidP: "valid_client_id (mw_auth_config ?mw) (?P ''sub'') = Some ''test-client''"
    using valid_test_client by simp
  have cidQ: "valid_client_id (mw_auth_config ?mw) (?Q ''sub'') = Some ''test-client''"
    using valid_test_client by simp
  have tsP: "token_scopes_of ?P = Inr ?ts"
    by (simp add: token_scopes_of_def py_split_def py_isspace_def)
  have tsQ: "token_scopes_of ?Q = Inr ?ts"
    by (simp add: token_scopes_of_def py_split_def py_isspace_def)
  have sub: "set (required_scopes_of (mw_auth_config ?mw) ''test-client'') \<subseteq> set ?ts"
    by (simp add: required_scopes_test_client)
  have pat: "any_startswith ''patient/'' ?ts" by (simp add: any_startswith_def)
  have noP: "\<not> truthy (?P ''patient'')" by simp
  have yesQ: "truthy (?Q ''patient'')" by simp
  have "dispatch (stub_jwt ?P ''tok'') ?mw 0 ?req
          = JSONResponse ''Patient-context scopes require patient ID'' 403"
    using patient_context_check [OF sse_request_not_token_url hdr parse_bearer_tok verP cidP tsP sub]
          pat noP by blast
  moreover have "dispatch (stub_jwt ?Q ''tok'') ?mw 0 ?req
          = CallNext (?req\<lparr> req_state :=
                (req_state ?req)\<lparr> state_client_id := Some ''test-client'',
                                 state_scopes := Some ?ts,
                                 state_patient_id := ?Q ''patient'' \<rparr> \<rparr>)"
    using patient_context_check [OF sse_request_not_token_url hdr parse_bearer_tok verQ cidQ tsQ sub]
          yesQ by blast
  ultimately show ?thesis by simp
qed

text \<open>
  C9 as stated fails: a verified token of a configured client, with its required scope and
  a \<^verbatim>\<open>patient/\<close> scope, whose patient claim is present but empty, is refused with 403.
\<close>

theorem empty_patient_claim_denied:
  "[''sub'' \<mapsto> PyStr ''test-client'', ''aud'' \<mapsto> PyStr default_audience,
    ''scope'' \<mapsto> PyStr ''hmcp:access patient/hmcp:read'', ''patient'' \<mapsto> PyStr ''''] ''patient''
     = Some (PyStr '''')
   \<and> verify_token
       (stub_jwt [''sub'' \<mapsto> PyStr ''test-client'', ''aud'' \<mapsto> PyStr default_audience,
                  ''scope'' \<mapsto> PyStr ''hmcp:access patient/hmcp:read'',
                  ''patient'' \<mapsto> PyStr ''''] ''tok'')
       (mw_jwt_handler (AuthMiddleware AuthConfig)) 0 ''tok''
     = Inr [''sub'' \<mapsto> PyStr ''test-client'', ''aud'' \<mapsto> PyStr default_audience,
            ''scope'' \<mapsto> PyStr ''hmcp:access patient/hmcp:read'', ''patient'' \<mapsto> PyStr '''']
   \<and> dispatch
       (stub_jwt [''sub'' \<mapsto> PyStr ''test-client'', ''aud'' \<mapsto> PyStr default_audience,
                  ''scope'' \<mapsto> PyStr ''hmcp:access patient/hmcp:read'',
                  ''patient'' \<mapsto> PyStr ''''] ''tok'')
       (AuthMiddleware AuthConfig) 0 (sse_request (Some ''Bearer tok''))
     = JSONResponse ''Patient-context scopes require patient ID'' 403"
proof -
  let ?P = "[''sub'' \<mapsto> PyStr ''test-client'', ''aud'' \<mapsto> PyStr default_audience,
             ''scope'' \<mapsto> PyStr ''hmcp:access patient/hmcp:read'', ''patient'' \<mapsto> PyStr '''']"
  let ?mw = "AuthMiddleware AuthConfig"
  have ver: "verify_token (stub_jwt ?P ''tok'') (mw_jwt_handler ?mw) 0 ''tok'' = Inr ?P"
    by (rule stub_verify_default) simp_all
  have cid: "valid_client_id (mw_auth_config ?mw) (?P ''sub'') = Some ''test-client''"
    using valid_test_client by simp
  have ts: "token_scopes_of ?P = Inr [''hmcp:access'', ''patient/hmcp:read'']"
    by (simp add: token_scopes_of_def py_split_def py_isspace_def)
  have "dispatch (stub_jwt ?P ''tok'') ?mw 0 (sse_request (Some ''Bearer tok''))
          = JSONResponse ''Patient-context scopes require patient ID'' 403"
    using dispatch_verified [OF sse_request_not_token_url _ parse_bearer_tok ver cid ts]
    by (simp add: required_scopes_test_client any_startswith_def)
  with ver show ?thesis by simp
qed

section \<open>The token issuer\<close>

lemma token_claims_sub: "token_claims cfg now exp client_id scope patient_id ''sub'' = Some (PyStr client_id)"
  by (simp add: token_claims_def Let_def split: option.splits)

lemma token_claims_scope: "token_claims cfg now exp client_id scope patient_id ''scope'' = Some (PyStr scope)"
  by (simp add: token_claims_def Let_def split: option.splits)

lemma token_claims_aud:
  "token_claims cfg now exp client_id scope patient_id ''aud'' = Some (PyStr (JWT_AUDIENCE cfg))"
  by (simp add: token_claims_def Let_def split: option.splits)

lemma token_claims_iat: "token_claims cfg now exp client_id scope patient_id ''iat'' = Some (PyInt now)"
  by (simp add: token_claims_def Let_def split: option.splits)

lemma token_claims_exp: "token_claims cfg now exp client_id scope patient_id ''exp'' = Some (PyInt exp)"
  by (simp add: token_claims_def Let_def split: option.splits)

lemma token_claims_nbf: "token_claims cfg now exp client_id scope patient_id ''nbf'' = None"
  by (simp add: token_claims_def Let_def split: option.splits)

lemma token_claims_patient:
  "token_claims cfg now exp client_id scope patient_id ''patient''
     = (if truthy_str patient_id \<and> any_startswith ''patient/'' (py_split scope)
        then map_option PyStr patient_id else None)"
  by (simp add: token_claims_def Let_def split: option.splits)

lemma timedelta_hours_Inr: "timedelta_hours h = Inr d \<Longrightarrow> d = h * 3600"
  by (simp add: timedelta_hours_def Let_def split: if_splits)

lemma timedelta_hours_Inl: "timedelta_hours h = Inl e \<Longrightarrow> \<exists>m. e = OverflowError m"
  by (auto simp: timedelta_hours_def Let_def split: if_splits)

lemma datetime_add_Inr: "datetime_add t d = Inr r \<Longrightarrow> r = t + d"
  by (simp add: datetime_add_def split: if_splits)

lemma datetime_add_Inl: "datetime_add t d = Inl e \<Longrightarrow> \<exists>m. e = OverflowError m"
  by (auto simp: datetime_add_def split: if_splits)

lemma expiry_instant_Inr:
  "expiry_instant cfg now = Inr exp \<Longrightarrow> exp = now + TOKEN_EXPIRY_HOURS cfg * 3600"
  by (auto simp: expiry_instant_def split: sum.splits
           dest!: timedelta_hours_Inr datetime_add_Inr)

lemma expiry_instant_Inl: "expiry_instant cfg now = Inl e \<Longrightarrow> \<exists>m. e = OverflowError m"
  by (auto simp: expiry_instant_def split: sum.splits
           dest: timedelta_hours_Inl datetime_add_Inl)

lemma token_payload_Inr:
  "token_payload cfg now client_id scope patient_id = Inr payload \<longleftrightarrow>
     (\<exists>exp. expiry_instant cfg now = Inr exp
          \<and> payload = token_claims cfg now exp client_id scope patient_id)"
  by (auto simp: token_payload_def split: sum.splits)

lemma token_payload_Inl:
  "token_payload cfg now client_id scope patient_id = Inl e \<Longrightarrow> \<exists>m. e = OverflowError m"
  by (auto simp: token_payload_def split: sum.splits dest: expiry_instant_Inl)

lemma generate_token_Inr:
  "generate_token lib self now client_id scope patient_id = Inr tok \<longleftrightarrow>
     client_id \<in> dom (ALLOWED_CLIENTS (jwt_config self)) \<and>
     (\<exists>payload. token_payload (jwt_config self) now client_id scope patient_id = Inr payload
        \<and> pyjwt_encode lib payload (JWT_SECRET_KEY (jwt_config self))
              (JWT_ALGORITHM (jwt_config self)) = Inr tok)"
  by (auto simp: generate_token_def split: sum.splits)

lemma generate_token_no_validation_error:
  assumes "client_id \<in> dom (ALLOWED_CLIENTS (jwt_config self))"
  shows "generate_token lib self now client_id scope patient_id \<noteq> Inl (ClientValidationError m)"
proof (cases "token_payload (jwt_config self) now client_id scope patient_id")
  case (Inl e)
  then show ?thesis
    using assms token_payload_Inl [OF Inl] by (auto simp: generate_token_def)
next
  case (Inr payload)
  then show ?thesis
    using assms by (auto simp: generate_token_def pyjwt_call_def split: sum.splits)
qed

lemma pyjwt_roundtripD:
  assumes "pyjwt_roundtrip lib"
    and "pyjwt_encode lib payload key alg = Inr tok"
    and "payload ''aud'' = Some (PyStr aud)"
    and "payload ''exp'' = Some (PyInt e)" and "now < e"
    and "payload ''iat'' = Some (PyInt i)" and "i \<le> now"
    and "payload ''nbf'' = None"
  shows "pyjwt_decode lib tok key [alg] aud now = Inr payload"
  using assms unfolding pyjwt_roundtrip_def by blast

lemma stub_jwt_roundtrip: "pyjwt_roundtrip (stub_jwt P tok)"
  by (auto simp: pyjwt_roundtrip_def stub_jwt_def split: if_splits)

lemma stub_encode: "pyjwt_encode (stub_jwt P tok) P key alg = Inr tok"
  by (simp add: stub_jwt_def)

lemma test_client_allowed: "''test-client'' \<in> dom (ALLOWED_CLIENTS AuthConfig)"
  by (simp add: AuthConfig_def)

lemma timedelta_one_hour: "timedelta_hours 1 = Inr 3600"
  by (simp add: timedelta_hours_def)

lemma default_expiry_instant: "expiry_instant AuthConfig 1000 = Inr 4600"
  by (simp add: expiry_instant_def timedelta_one_hour datetime_add_def datetime_min_def
                datetime_max_def AuthConfig_def)


lemma default_token_payload:
  "token_payload AuthConfig 1000 ''test-client'' scope patient_id = Inr (issued_claims scope patient_id)"
  by (simp add: token_payload_def default_expiry_instant)

text \<open>Under the default configuration a handler, whatever its revocation set, issues the
  one token of the stand-in library for the claims of that token.\<close>

lemma stub_generate_default:
  "generate_token (stub_jwt (issued_claims scope patient_id) ''tok'')
     \<lparr> jwt_config = AuthConfig, blacklisted_tokens = B \<rparr> 1000 ''test-client'' scope patient_id
     = Inr ''tok''"
  by (simp add: generate_token_def test_client_allowed default_token_payload stub_encode)

lemma stub_decode_default:
  "1000 \<le> t \<Longrightarrow> t < 4600 \<Longrightarrow>
   pyjwt_decode (stub_jwt (issued_claims scope patient_id) ''tok'') ''tok''
     (JWT_SECRET_KEY AuthConfig) [JWT_ALGORITHM AuthConfig] (JWT_AUDIENCE AuthConfig) t
     = Inr (issued_claims scope patient_id)"
  by (simp add: stub_jwt_def token_claims_exp token_claims_aud)

lemma stub_verify_issued:
  "1000 \<le> t \<Longrightarrow> t < 4600 \<Longrightarrow>
   verify_token (stub_jwt (issued_claims scope patient_id) ''tok'') (JWTHandler AuthConfig) t ''tok''
     = Inr (issued_claims scope patient_id)"
  using stub_decode_default [of t scope patient_id]
  by (simp add: verify_token_def verify_token_try_def JWTHandler_def)

lemma split_patient_read: "py_split ''patient/hmcp:read'' = [''patient/hmcp:read'']"
  by (simp add: py_split_def py_isspace_def)

lemma split_access_patient_read:
  "py_split ''hmcp:access patient/hmcp:read'' = [''hmcp:access'', ''patient/hmcp:read'']"
  by (simp add: py_split_def py_isspace_def)

lemma split_access_launch:
  "py_split ''hmcp:access launch/patient'' = [''hmcp:access'', ''launch/patient'']"
  by (simp add: py_split_def py_isspace_def)

text \<open>
  C2, as the code has it. Let \<^verbatim>\<open>generate_token\<close> return a token for a client id, a scope
  string and an optional patient id, let the library decode the tokens it made, and let
  the token be verified by the same handler from the instant of issue on, before its
  expiry instant and while it is not in the revocation set. Then \<^verbatim>\<open>verify_token\<close> returns
  claims whose \<^verbatim>\<open>sub\<close> is the client id and whose \<^verbatim>\<open>scope\<close> is the scope string; the
  patient claim is the patient id exactly when a patient id was given that is not empty
  and one of the whitespace-separated scopes starts with \<^verbatim>\<open>patient/\<close>, and there is no
  patient claim otherwise.
\<close>

theorem issue_verify_roundtrip:
  assumes lib: "pyjwt_roundtrip lib"
    and issued: "generate_token lib self now client_id scope patient_id = Inr tok"
    and fresh: "tok \<notin> blacklisted_tokens self"
    and after: "now \<le> now'"
    and before: "now' < now + TOKEN_EXPIRY_HOURS (jwt_config self) * 3600"
  shows "\<exists>claims. verify_token lib self now' tok = Inr claims
          \<and> claims ''sub'' = Some (PyStr client_id)
          \<and> claims ''scope'' = Some (PyStr scope)
          \<and> ((\<exists>pid. patient_id = Some pid \<and> claims ''patient'' = Some (PyStr pid))
               \<longleftrightarrow> truthy_str patient_id \<and> any_startswith ''patient/'' (py_split scope))
          \<and> (claims ''patient'' = None
               \<longleftrightarrow> \<not> (truthy_str patient_id \<and> any_startswith ''patient/'' (py_split scope)))"
proof -
  from issued obtain payload where
    pl: "token_payload (jwt_config self) now client_id scope patient_id = Inr payload"
    and enc: "pyjwt_encode lib payload (JWT_SECRET_KEY (jwt_config self))
                (JWT_ALGORITHM (jwt_config self)) = Inr tok"
    unfolding generate_token_Inr by blast
  from pl obtain exp where
    ex: "expiry_instant (jwt_config self) now = Inr exp"
    and P: "payload = token_claims (jwt_config self) now exp client_id scope patient_id"
    unfolding token_payload_Inr by blast
  have exp: "exp = now + TOKEN_EXPIRY_HOURS (jwt_config self) * 3600"
    by (rule expiry_instant_Inr [OF ex])
  have lt: "now' < exp" using before exp by simp
  have dec: "pyjwt_decode lib tok (JWT_SECRET_KEY (jwt_config self))
               [JWT_ALGORITHM (jwt_config self)] (JWT_AUDIENCE (jwt_config self)) now' = Inr payload"
    unfolding P
    by (rule pyjwt_roundtripD [OF lib enc [unfolded P] token_claims_aud token_claims_exp lt
                                  token_claims_iat after token_claims_nbf])
  have ver: "verify_token lib self now' tok = Inr payload"
    using fresh dec by (simp add: verify_token_def verify_token_try_def)
  have pat1: "(\<exists>pid. patient_id = Some pid \<and> payload ''patient'' = Some (PyStr pid))
               \<longleftrightarrow> truthy_str patient_id \<and> any_startswith ''patient/'' (py_split scope)"
    unfolding P by (cases patient_id) (auto simp: token_claims_patient)
  have pat2: "payload ''patient'' = None
               \<longleftrightarrow> \<not> (truthy_str patient_id \<and> any_startswith ''patient/'' (py_split scope))"
    unfolding P by (cases patient_id) (auto simp: token_claims_patient)
  have sub: "payload ''sub'' = Some (PyStr client_id)"
    unfolding P by (rule token_claims_sub)
  have sc: "payload ''scope'' = Some (PyStr scope)"
    unfolding P by (rule token_claims_scope)
  show ?thesis
  proof (intro exI [of _ payload] conjI)
    show "verify_token lib self now' tok = Inr payload" by (rule ver)
    show "payload ''sub'' = Some (PyStr client_id)" by (rule sub)
    show "payload ''scope'' = Some (PyStr scope)" by (rule sc)
    show "(\<exists>pid. patient_id = Some pid \<and> payload ''patient'' = Some (PyStr pid))
            \<longleftrightarrow> truthy_str patient_id \<and> any_startswith ''patient/'' (py_split scope)"
      by (rule pat1)
    show "payload ''patient'' = None
            \<longleftrightarrow> \<not> (truthy_str patient_id \<and> any_startswith ''patient/'' (py_split scope))"
      by (rule pat2)
  qed
qed

theorem issue_verify_roundtrip_witness:
  "pyjwt_roundtrip (stub_jwt (issued_claims ''hmcp:access patient/hmcp:read'' (Some ''PT12345'')) ''tok'')
   \<and> generate_token
        (stub_jwt (issued_claims ''hmcp:access patient/hmcp:read'' (Some ''PT12345'')) ''tok'')
        (JWTHandler AuthConfig) 1000 ''test-client'' ''hmcp:access patient/hmcp:read'' (Some ''PT12345'')
      = Inr ''tok''
   \<and> ''tok'' \<notin> blacklisted_tokens (JWTHandler AuthConfig)
   \<and> (1000 :: int) \<le> 1001
   \<and> 1001 < 1000 + TOKEN_EXPIRY_HOURS (jwt_config (JWTHandler AuthConfig)) * 3600
   \<and> (\<exists>claims.
        verify_token
          (stub_jwt (issued_claims ''hmcp:access patient/hmcp:read'' (Some ''PT12345'')) ''tok'')
          (JWTHandler AuthConfig) 1001 ''tok'' = Inr claims
        \<and> claims ''sub'' = Some (PyStr ''test-client'')
        \<and> claims ''scope'' = Some (PyStr ''hmcp:access patient/hmcp:read'')
        \<and> claims ''patient'' = Some (PyStr ''PT12345''))"
proof -
  let ?h = "JWTHandler AuthConfig"
  let ?lib = "stub_jwt (issued_claims ''hmcp:access patient/hmcp:read'' (Some ''PT12345'')) ''tok''"
  have issued: "generate_token ?lib ?h 1000 ''test-client'' ''hmcp:access patient/hmcp:read''
                  (Some ''PT12345'') = Inr ''tok''"
    unfolding JWTHandler_def by (rule stub_generate_default)
  have fresh: "''tok'' \<notin> blacklisted_tokens ?h" by (simp add: JWTHandler_def)
  have after: "(1000::int) \<le> 1001" by simp
  have before: "1001 < 1000 + TOKEN_EXPIRY_HOURS (jwt_config ?h) * 3600"
    by (simp add: JWTHandler_def AuthConfig_def)
  have scopes: "any_startswith ''patient/'' (py_split ''hmcp:access patient/hmcp:read'')"
    by (simp add: any_startswith_def split_access_patient_read)
  from issue_verify_roundtrip [OF stub_jwt_roundtrip issued fresh after before]
       scopes stub_jwt_roundtrip issued fresh after before
  show ?thesis by auto
qed

lemma empty_id_no_claim: "issued_claims ''patient/hmcp:read'' (Some '''') ''patient'' = None"
  by (simp add: token_claims_patient)

lemma launch_no_claim: "issued_claims ''hmcp:access launch/patient'' (Some ''PT12345'') ''patient'' = None"
  by (simp add: token_claims_patient split_access_launch any_startswith_def)

lemma overflow_expiry_instant:
  "expiry_instant (AuthConfig\<lparr> TOKEN_EXPIRY_HOURS := 70000000 \<rparr>) 1793793600
     = Inl (OverflowError ''date value out of range'')"
  by (simp add: expiry_instant_def timedelta_hours_def datetime_add_def datetime_min_def
                datetime_max_def)

lemma overflow_generate:
  "generate_token (stub_jwt Map.empty ''tok'')
     (JWTHandler (AuthConfig\<lparr> TOKEN_EXPIRY_HOURS := 70000000 \<rparr>)) 1793793600
     ''test-client'' ''hmcp:access'' None
     = Inl (OverflowError ''date value out of range'')"
  by (simp add: generate_token_def JWTHandler_def token_payload_def overflow_expiry_instant)
     (simp add: AuthConfig_def)

lemma zero_hours_expiry_instant:
  "expiry_instant (AuthConfig\<lparr> TOKEN_EXPIRY_HOURS := 0 \<rparr>) 1000 = Inr 1000"
  by (simp add: expiry_instant_def timedelta_hours_def datetime_add_def datetime_min_def
                datetime_max_def)

lemma zero_hours_generate:
  "generate_token
     (stub_jwt (token_claims (AuthConfig\<lparr> TOKEN_EXPIRY_HOURS := 0 \<rparr>) 1000 1000
                  ''test-client'' ''hmcp:access'' None) ''tok'')
     (JWTHandler (AuthConfig\<lparr> TOKEN_EXPIRY_HOURS := 0 \<rparr>)) 1000 ''test-client'' ''hmcp:access'' None
     = Inr ''tok''"
  by (simp add: generate_token_def JWTHandler_def token_payload_def zero_hours_expiry_instant
                stub_encode)
     (simp add: AuthConfig_def)

lemma zero_hours_verify:
  "verify_token
     (stub_jwt (token_claims (AuthConfig\<lparr> TOKEN_EXPIRY_HOURS := 0 \<rparr>) 1000 1000
                  ''test-client'' ''hmcp:access'' None) ''tok'')
     (JWTHandler (AuthConfig\<lparr> TOKEN_EXPIRY_HOURS := 0 \<rparr>)) 1000 ''tok''
     = Inl (InvalidTokenError ''Token has expired'')"
  by (simp add: verify_token_def verify_token_try_def JWTHandler_def stub_jwt_def token_claims_exp)

lemma revoked_verify:
  "verify_token (stub_jwt (issued_claims ''hmcp:access'' None) ''tok'')
     \<lparr> jwt_config = AuthConfig, blacklisted_tokens = {''tok''} \<rparr> 1000 ''tok''
     = Inl (InvalidTokenError ''Token verification failed: Token has been revoked'')"
  by (simp add: verify_token_def verify_token_try_def)

lemma deaf_generate:
  "generate_token
     ((stub_jwt (issued_claims ''hmcp:access'' None) ''tok'')
        \<lparr> pyjwt_decode := pyjwt_decode (stub_jwt (issued_claims ''hmcp:access'' None) ''other'') \<rparr>)
     (JWTHandler AuthConfig) 1000 ''test-client'' ''hmcp:access'' None
     = Inr ''tok''"
  by (simp add: generate_token_def JWTHandler_def test_client_allowed default_token_payload stub_encode)

lemma deaf_verify:
  "verify_token
     ((stub_jwt (issued_claims ''hmcp:access'' None) ''tok'')
        \<lparr> pyjwt_decode := pyjwt_decode (stub_jwt (issued_claims ''hmcp:access'' None) ''other'') \<rparr>)
     (JWTHandler AuthConfig) 1000 ''tok''
     = Inl (InvalidTokenError ''Invalid token'')"
  by (simp add: verify_token_def verify_token_try_def JWTHandler_def stub_jwt_def)

text \<open>
  C2 as stated fails, for a configured client each time. With the empty string as patient
  id (which is not null) and a \<^verbatim>\<open>patient/\<close> scope the token is issued and verified, and
  its claims have no patient claim. With an expiry of 70000000 hours no token is issued:
  the expiry instant lies beyond year 9999 and line 39 raises \<^verbatim>\<open>OverflowError\<close>. With an
  expiry of 0 hours the token has expired at the instant of issue. A token that is in the
  revocation set is refused. And under a library that does not decode the token it made,
  the token is refused as invalid.
\<close>

theorem roundtrip_fails:
  "(any_startswith ''patient/'' (py_split ''patient/hmcp:read'')
    \<and> generate_token (stub_jwt (issued_claims ''patient/hmcp:read'' (Some '''')) ''tok'')
          (JWTHandler AuthConfig) 1000 ''test-client'' ''patient/hmcp:read'' (Some '''')
        = Inr ''tok''
    \<and> verify_token (stub_jwt (issued_claims ''patient/hmcp:read'' (Some '''')) ''tok'')
          (JWTHandler AuthConfig) 1000 ''tok''
        = Inr (issued_claims ''patient/hmcp:read'' (Some ''''))
    \<and> issued_claims ''patient/hmcp:read'' (Some '''') ''patient'' = None)
   \<and> (''test-client'' \<in> dom (ALLOWED_CLIENTS (AuthConfig\<lparr> TOKEN_EXPIRY_HOURS := 70000000 \<rparr>))
    \<and> generate_token (stub_jwt Map.empty ''tok'')
          (JWTHandler (AuthConfig\<lparr> TOKEN_EXPIRY_HOURS := 70000000 \<rparr>)) 1793793600
          ''test-client'' ''hmcp:access'' None
        = Inl (OverflowError ''date value out of range''))
   \<and> (generate_token
          (stub_jwt (token_claims (AuthConfig\<lparr> TOKEN_EXPIRY_HOURS := 0 \<rparr>) 1000 1000
                       ''test-client'' ''hmcp:access'' None) ''tok'')
          (JWTHandler (AuthConfig\<lparr> TOKEN_EXPIRY_HOURS := 0 \<rparr>)) 1000 ''test-client'' ''hmcp:access'' None
        = Inr ''tok''
    \<and> verify_token
          (stub_jwt (token_claims (AuthConfig\<lparr> TOKEN_EXPIRY_HOURS := 0 \<rparr>) 1000 1000
                       ''test-client'' ''hmcp:access'' None) ''tok'')
          (JWTHandler (AuthConfig\<lparr> TOKEN_EXPIRY_HOURS := 0 \<rparr>)) 1000 ''tok''
        = Inl (InvalidTokenError ''Token has expired''))
   \<and> (generate_token (stub_jwt (issued_claims ''hmcp:access'' None) ''tok'')
          \<lparr> jwt_config = AuthConfig, blacklisted_tokens = {''tok''} \<rparr> 1000
          ''test-client'' ''hmcp:access'' None
        = Inr ''tok''
    \<and> verify_token (stub_jwt (issued_claims ''hmcp:access'' None) ''tok'')
          \<lparr> jwt_config = AuthConfig, blacklisted_tokens = {''tok''} \<rparr> 1000 ''tok''
        = Inl (InvalidTokenError ''Token verification failed: Token has been revoked''))
   \<and> (generate_token
          ((stub_jwt (issued_claims ''hmcp:access'' None) ''tok'')
             \<lparr> pyjwt_decode := pyjwt_decode (stub_jwt (issued_claims ''hmcp:access'' None) ''other'') \<rparr>)
          (JWTHandler AuthConfig) 1000 ''test-client'' ''hmcp:access'' None
        = Inr ''tok''
    \<and> verify_token
          ((stub_jwt (issued_claims ''hmcp:access'' None) ''tok'')
             \<lparr> pyjwt_decode := pyjwt_decode (stub_jwt (issued_claims ''hmcp:access'' None) ''other'') \<rparr>)
          (JWTHandler AuthConfig) 1000 ''tok''
        = Inl (InvalidTokenError ''Invalid token''))"
proof -
  have scopes: "any_startswith ''patient/'' (py_split ''patient/hmcp:read'')"
    by (simp add: any_startswith_def split_patient_read)
  have gen: "generate_token (stub_jwt (issued_claims ''patient/hmcp:read'' (Some '''')) ''tok'')
          (JWTHandler AuthConfig) 1000 ''test-client'' ''patient/hmcp:read'' (Some '''') = Inr ''tok''"
    unfolding JWTHandler_def by (rule stub_generate_default)
  have ver: "verify_token (stub_jwt (issued_claims ''patient/hmcp:read'' (Some '''')) ''tok'')
          (JWTHandler AuthConfig) 1000 ''tok'' = Inr (issued_claims ''patient/hmcp:read'' (Some ''''))"
    by (rule stub_verify_issued) simp_all
  have reg: "''test-client'' \<in> dom (ALLOWED_CLIENTS (AuthConfig\<lparr> TOKEN_EXPIRY_HOURS := 70000000 \<rparr>))"
    by (simp add: AuthConfig_def)
  note a = scopes gen ver empty_id_no_claim
  note b = reg overflow_generate
  note c = zero_hours_generate zero_hours_verify
  note d = stub_generate_default [of "''hmcp:access''" None "{''tok''}"] revoked_verify
  note e = deaf_generate deaf_verify
  show ?thesis
    by (intro conjI a b c d e)
qed

text \<open>
  C3, as the code has it. Whenever \<^verbatim>\<open>generate_token\<close> issues a token, the token is what
  \<^verbatim>\<open>jwt.encode\<close> made of the payload of lines 33 to 45, and that payload has a patient
  claim if and only if one of the whitespace-separated scopes starts with \<^verbatim>\<open>patient/\<close>
  and a patient id was given that is not empty. The scope \<^verbatim>\<open>launch/patient\<close> plays no
  part.
\<close>

theorem patient_claim_issued:
  assumes "generate_token lib self now client_id scope patient_id = Inr tok"
  shows "\<exists>payload.
           token_payload (jwt_config self) now client_id scope patient_id = Inr payload
           \<and> pyjwt_encode lib payload (JWT_SECRET_KEY (jwt_config self))
                (JWT_ALGORITHM (jwt_config self)) = Inr tok
           \<and> (payload ''patient'' \<noteq> None
                \<longleftrightarrow> any_startswith ''patient/'' (py_split scope) \<and> truthy_str patient_id)"
proof -
  from assms obtain payload where
    pl: "token_payload (jwt_config self) now client_id scope patient_id = Inr payload"
    and enc: "pyjwt_encode lib payload (JWT_SECRET_KEY (jwt_config self))
                (JWT_ALGORITHM (jwt_config self)) = Inr tok"
    unfolding generate_token_Inr by blast
  from pl obtain exp where
    P: "payload = token_claims (jwt_config self) now exp client_id scope patient_id"
    unfolding token_payload_Inr by blast
  have pat: "payload ''patient'' \<noteq> None
                \<longleftrightarrow> any_startswith ''patient/'' (py_split scope) \<and> truthy_str patient_id"
    unfolding P by (cases patient_id) (auto simp: token_claims_patient)
  show ?thesis
  proof (intro exI [of _ payload] conjI)
    show "token_payload (jwt_config self) now client_id scope patient_id = Inr payload" by (rule pl)
    show "pyjwt_encode lib payload (JWT_SECRET_KEY (jwt_config self))
            (JWT_ALGORITHM (jwt_config self)) = Inr tok" by (rule enc)
    show "payload ''patient'' \<noteq> None
            \<longleftrightarrow> any_startswith ''patient/'' (py_split scope) \<and> truthy_str patient_id" by (rule pat)
  qed
qed

theorem patient_claim_issued_witness:
  "generate_token
     (stub_jwt (issued_claims ''hmcp:access patient/hmcp:read'' (Some ''PT12345'')) ''tok'')
     (JWTHandler AuthConfig) 1000 ''test-client'' ''hmcp:access patient/hmcp:read'' (Some ''PT12345'')
     = Inr ''tok''
   \<and> any_startswith ''patient/'' (py_split ''hmcp:access patient/hmcp:read'')
   \<and> truthy_str (Some ''PT12345'')
   \<and> (\<exists>payload.
         token_payload (jwt_config (JWTHandler AuthConfig)) 1000 ''test-client''
           ''hmcp:access patient/hmcp:read'' (Some ''PT12345'') = Inr payload
         \<and> payload ''patient'' \<noteq> None)"
proof -
  have issued: "generate_token
     (stub_jwt (issued_claims ''hmcp:access patient/hmcp:read'' (Some ''PT12345'')) ''tok'')
     (JWTHandler AuthConfig) 1000 ''test-client'' ''hmcp:access patient/hmcp:read'' (Some ''PT12345'')
     = Inr ''tok''"
    unfolding JWTHandler_def by (rule stub_generate_default)
  have scopes: "any_startswith ''patient/'' (py_split ''hmcp:access patient/hmcp:read'')"
    by (simp add: any_startswith_def split_access_patient_read)
  have pid: "truthy_str (Some ''PT12345'')" by simp
  from patient_claim_issued [OF issued] scopes pid issued
  show ?thesis by blast
qed

text \<open>
  C3 as stated fails: a token requested with the scope \<^verbatim>\<open>launch/patient\<close> and a patient
  id is issued from a payload without patient claim, and so is a token requested with a
  \<^verbatim>\<open>patient/\<close> scope and the empty string as patient id.
\<close>

theorem launch_patient_adds_no_claim:
  "(''launch/patient'' \<in> set (py_split ''hmcp:access launch/patient'')
    \<and> generate_token
         (stub_jwt (issued_claims ''hmcp:access launch/patient'' (Some ''PT12345'')) ''tok'')
         (JWTHandler AuthConfig) 1000 ''test-client'' ''hmcp:access launch/patient'' (Some ''PT12345'')
       = Inr ''tok''
    \<and> token_payload AuthConfig 1000 ''test-client'' ''hmcp:access launch/patient'' (Some ''PT12345'')
       = Inr (issued_claims ''hmcp:access launch/patient'' (Some ''PT12345''))
    \<and> issued_claims ''hmcp:access launch/patient'' (Some ''PT12345'') ''patient'' = None)
   \<and> (any_startswith ''patient/'' (py_split ''patient/hmcp:read'')
    \<and> generate_token (stub_jwt (issued_claims ''patient/hmcp:read'' (Some '''')) ''tok'')
         (JWTHandler AuthConfig) 1000 ''test-client'' ''patient/hmcp:read'' (Some '''')
       = Inr ''tok''
    \<and> token_payload AuthConfig 1000 ''test-client'' ''patient/hmcp:read'' (Some '''')
       = Inr (issued_claims ''patient/hmcp:read'' (Some ''''))
    \<and> issued_claims ''patient/hmcp:read'' (Some '''') ''patient'' = None)"
proof -
  have launch: "''launch/patient'' \<in> set (py_split ''hmcp:access launch/patient'')"
    by (simp add: split_access_launch)
  have gen1: "generate_token
         (stub_jwt (issued_claims ''hmcp:access launch/patient'' (Some ''PT12345'')) ''tok'')
         (JWTHandler AuthConfig) 1000 ''test-client'' ''hmcp:access launch/patient'' (Some ''PT12345'')
       = Inr ''tok''"
    unfolding JWTHandler_def by (rule stub_generate_default)
  have scopes: "any_startswith ''patient/'' (py_split ''patient/hmcp:read'')"
    by (simp add: any_startswith_def split_patient_read)
  have gen2: "generate_token (stub_jwt (issued_claims ''patient/hmcp:read'' (Some '''')) ''tok'')
         (JWTHandler AuthConfig) 1000 ''test-client'' ''patient/hmcp:read'' (Some '''')
       = Inr ''tok''"
    unfolding JWTHandler_def by (rule stub_generate_default)
  show ?thesis
    by (intro conjI launch gen1 default_token_payload launch_no_claim scopes gen2 empty_id_no_claim)
qed

lemma server_handler_default: "server_jwt_handler (OAuthServer AuthConfig) = JWTHandler AuthConfig"
  by (simp add: OAuthServer_def)

lemma create_token_default:
  "create_token (stub_jwt (issued_claims ''hmcp:access'' None) ''tok'')
     (OAuthServer AuthConfig) 1000 ''test-client'' ''hmcp:access'' None
     = Inr [''access_token'' \<mapsto> PyStr ''tok'', ''token_type'' \<mapsto> PyStr ''Bearer'',
            ''expires_in'' \<mapsto> PyInt 3600, ''scope'' \<mapsto> PyStr ''hmcp:access'']"
proof -
  have gen: "generate_token (stub_jwt (issued_claims ''hmcp:access'' None) ''tok'')
               (JWTHandler AuthConfig) 1000 ''test-client'' ''hmcp:access'' None = Inr ''tok''"
    unfolding JWTHandler_def by (rule stub_generate_default)
  show ?thesis
    by (simp add: create_token_def server_handler_default gen)
       (simp add: OAuthServer_def AuthConfig_def)
qed

text \<open>
  C6, as the code has it. \<^verbatim>\<open>generate_token\<close>, and \<^verbatim>\<open>create_token\<close> which calls it, fail
  with \<^verbatim>\<open>ClientValidationError\<close> when the client id is not a key of \<^verbatim>\<open>ALLOWED_CLIENTS\<close> in
  the configuration of the handler; when it is a key, neither raises this error, whatever
  the library does. The clients that \<^verbatim>\<open>register_client\<close> records in \<^verbatim>\<open>oauth_clients\<close> play no
  part: registering leaves the handler and its configuration as they were.
\<close>

theorem issue_checks_allowed_clients:
  "(client_id \<notin> dom (ALLOWED_CLIENTS (jwt_config (server_jwt_handler self))) \<longrightarrow>
      generate_token lib (server_jwt_handler self) now client_id scope patient_id
        = Inl (ClientValidationError (''Client '' @ client_id @ '' is not registered''))
      \<and> create_token lib self now client_id scope patient_id
        = Inl (ClientValidationError (''Client '' @ client_id @ '' is not registered'')))
   \<and> (client_id \<in> dom (ALLOWED_CLIENTS (jwt_config (server_jwt_handler self))) \<longrightarrow>
      (\<forall>m. generate_token lib (server_jwt_handler self) now client_id scope patient_id
             \<noteq> Inl (ClientValidationError m)
         \<and> create_token lib self now client_id scope patient_id \<noteq> Inl (ClientValidationError m)))
   \<and> server_jwt_handler (register_client self t c s redirect_uris allowed_scopes)
        = server_jwt_handler self"
proof (intro conjI impI allI)
  assume unreg: "client_id \<notin> dom (ALLOWED_CLIENTS (jwt_config (server_jwt_handler self)))"
  then show "generate_token lib (server_jwt_handler self) now client_id scope patient_id
        = Inl (ClientValidationError (''Client '' @ client_id @ '' is not registered''))"
    by (simp add: generate_token_def)
  from unreg show "create_token lib self now client_id scope patient_id
        = Inl (ClientValidationError (''Client '' @ client_id @ '' is not registered''))"
    by (simp add: create_token_def generate_token_def)
next
  fix m
  assume reg: "client_id \<in> dom (ALLOWED_CLIENTS (jwt_config (server_jwt_handler self)))"
  show gen: "generate_token lib (server_jwt_handler self) now client_id scope patient_id
               \<noteq> Inl (ClientValidationError m)"
    by (rule generate_token_no_validation_error [OF reg])
  show "create_token lib self now client_id scope patient_id \<noteq> Inl (ClientValidationError m)"
    using gen by (auto simp: create_token_def Let_def split: sum.splits)
next
  show "server_jwt_handler (register_client self t c s redirect_uris allowed_scopes)
        = server_jwt_handler self"
    by (simp add: register_client_def)
qed

theorem issue_checks_allowed_clients_witness:
  "''c1'' \<notin> dom (ALLOWED_CLIENTS (jwt_config (server_jwt_handler (OAuthServer AuthConfig))))
   \<and> create_token (stub_jwt (issued_claims ''hmcp:access'' None) ''tok'')
        (OAuthServer AuthConfig) 1000 ''c1'' ''hmcp:access'' None
       = Inl (ClientValidationError ''Client c1 is not registered'')
   \<and> ''test-client'' \<in> dom (ALLOWED_CLIENTS (jwt_config (server_jwt_handler (OAuthServer AuthConfig))))
   \<and> create_token (stub_jwt (issued_claims ''hmcp:access'' None) ''tok'')
        (OAuthServer AuthConfig) 1000 ''test-client'' ''hmcp:access'' None
       \<noteq> Inl (ClientValidationError ''Client test-client is not registered'')"
proof -
  let ?srv = "OAuthServer AuthConfig"
  let ?lib = "stub_jwt (issued_claims ''hmcp:access'' None) ''tok''"
  have unknown: "''c1'' \<notin> dom (ALLOWED_CLIENTS (jwt_config (server_jwt_handler ?srv)))"
    by (simp add: OAuthServer_def JWTHandler_def AuthConfig_def)
  have known: "''test-client'' \<in> dom (ALLOWED_CLIENTS (jwt_config (server_jwt_handler ?srv)))"
    by (simp add: OAuthServer_def JWTHandler_def AuthConfig_def)
  from issue_checks_allowed_clients [of "''c1''" ?srv ?lib 1000 "''hmcp:access''" None]
       issue_checks_allowed_clients [of "''test-client''" ?srv ?lib 1000 "''hmcp:access''" None]
       unknown known
  show ?thesis by simp
qed

text \<open>
  C6 as stated fails in both directions: a client recorded by \<^verbatim>\<open>register_client\<close> that is
  not in \<^verbatim>\<open>ALLOWED_CLIENTS\<close> is refused with \<^verbatim>\<open>ClientValidationError\<close>, and the client of
  the default \<^verbatim>\<open>ALLOWED_CLIENTS\<close>, never registered, is issued a token.
\<close>

theorem registered_client_refused:
  "''c1'' \<in> dom (oauth_clients (register_client (OAuthServer AuthConfig) 1000 ''c1'' ''s1'' None None))
   \<and> create_token
        (stub_jwt (token_claims AuthConfig 1000 4600 ''c1'' ''hmcp:access'' None) ''tok'')
        (register_client (OAuthServer AuthConfig) 1000 ''c1'' ''s1'' None None)
        1000 ''c1'' ''hmcp:access'' None
      = Inl (ClientValidationError ''Client c1 is not registered'')
   \<and> ''test-client'' \<notin> dom (oauth_clients (OAuthServer AuthConfig))
   \<and> create_token (stub_jwt (issued_claims ''hmcp:access'' None) ''tok'')
        (OAuthServer AuthConfig) 1000 ''test-client'' ''hmcp:access'' None
      = Inr [''access_token'' \<mapsto> PyStr ''tok'', ''token_type'' \<mapsto> PyStr ''Bearer'',
             ''expires_in'' \<mapsto> PyInt 3600, ''scope'' \<mapsto> PyStr ''hmcp:access'']"
proof -
  let ?srv = "OAuthServer AuthConfig"
  let ?srv1 = "register_client ?srv 1000 ''c1'' ''s1'' None None"
  have reg: "''c1'' \<in> dom (oauth_clients ?srv1)"
    by (simp add: register_client_def)
  have refused: "create_token (stub_jwt (token_claims AuthConfig 1000 4600 ''c1'' ''hmcp:access'' None) ''tok'')
                   ?srv1 1000 ''c1'' ''hmcp:access'' None
                 = Inl (ClientValidationError ''Client c1 is not registered'')"
    by (simp add: create_token_def generate_token_def register_client_def OAuthServer_def
                  JWTHandler_def AuthConfig_def)
  have unreg: "''test-client'' \<notin> dom (oauth_clients ?srv)"
    by (simp add: OAuthServer_def)
  show ?thesis
    by (intro conjI reg refused unreg create_token_default)
qed

section \<open>The credential store\<close>

text \<open>
  C5, as the code has it. \<^verbatim>\<open>validate_client\<close> raises \<^verbatim>\<open>ClientValidationError\<close> with the
  text \<^verbatim>\<open>Invalid client ID\<close> for a client id that is not in \<^verbatim>\<open>oauth_clients\<close>; for one
  that is, it returns whether the secret equals the stored one: true for the registered
  secret, and false, without raising, for any other.
\<close>

theorem validate_client_outcomes:
  "(oauth_clients self client_id = None \<longrightarrow>
      validate_client self client_id client_secret = Inl (ClientValidationError ''Invalid client ID''))
   \<and> (\<forall>entry. oauth_clients self client_id = Some entry \<longrightarrow>
        validate_client self client_id client_secret = Inr (entry_secret entry = client_secret))
   \<and> validate_client (register_client self now client_id registered_secret redirect_uris allowed_scopes)
        client_id client_secret = Inr (registered_secret = client_secret)"
  by (simp add: validate_client_def register_client_def)

theorem validate_client_outcomes_witness:
  "oauth_clients (OAuthServer AuthConfig) ''c1'' = None
   \<and> validate_client (OAuthServer AuthConfig) ''c1'' ''s1''
       = Inl (ClientValidationError ''Invalid client ID'')
   \<and> validate_client (register_client (OAuthServer AuthConfig) 1000 ''c1'' ''s1'' None None) ''c1'' ''s1''
       = Inr True
   \<and> validate_client (register_client (OAuthServer AuthConfig) 1000 ''c1'' ''s1'' None None) ''c1'' ''s2''
       = Inr False"
proof -
  have unknown: "oauth_clients (OAuthServer AuthConfig) ''c1'' = None"
    by (simp add: OAuthServer_def)
  from validate_client_outcomes [of "OAuthServer AuthConfig" "''c1''" "''s1''" 1000 "''s1''" None None]
       validate_client_outcomes [of "OAuthServer AuthConfig" "''c1''" "''s2''" 1000 "''s1''" None None]
       unknown
  show ?thesis by simp
qed

text \<open>
  C5 as stated fails: for a registered client and another secret, \<^verbatim>\<open>validate_client\<close>
  does not fail with an error, it returns false.
\<close>

theorem wrong_secret_returns_false:
  "oauth_clients (register_client (OAuthServer AuthConfig) 1000 ''c1'' ''s1'' None None) ''c1''
     = Some \<lparr> entry_secret = ''s1'', entry_created_at = 1000, entry_redirect_uris = [],
              entry_allowed_scopes = [''hmcp:access''] \<rparr>
   \<and> validate_client (register_client (OAuthServer AuthConfig) 1000 ''c1'' ''s1'' None None) ''c1'' ''s2''
       = Inr False"
  by (simp add: validate_client_def register_client_def OAuthServer_def)

end
